theory Spec2Isabelle
  imports Main "HOL-Library.Word"
begin

unbundle bit_operations_syntax

section \<open>Strings and bytes\<close>

text \<open>
  A JavaScript string is modelled by the list of its UTF-8 bytes (\<open>string\<close>, a list of
  8-bit characters): this is what \<open>crypto\<close> hashes when it is given a string, and
  concatenation, template literals and \<open>join\<close> act on it as they do on the string. The
  strings are well formed (no lone surrogate). A \<open>Buffer\<close> is a list of bytes.
\<close>

type_synonym byte = "8 word"
type_synonym u32 = "32 word"

definition utf8 :: "string \<Rightarrow> byte list" where
  "utf8 s = map (\<lambda>c. of_nat (of_char c)) s"

definition hex_digit :: "nat \<Rightarrow> char" where
  "hex_digit n = ''0123456789abcdef'' ! (n mod 16)"

text \<open>\<open>digest('hex')\<close>: two lower-case hexadecimal digits per byte.\<close>

definition hex :: "byte list \<Rightarrow> string" where
  "hex bs = concat (map (\<lambda>b. [hex_digit (unat b div 16), hex_digit (unat b mod 16)]) bs)"

section \<open>The platform's hash: SHA-256 (FIPS 180-4) and HMAC (RFC 2104)\<close>

definition rotr :: "nat \<Rightarrow> u32 \<Rightarrow> u32" where
  "rotr n x = drop_bit n x OR push_bit (32 - n) x"

definition Ch :: "u32 \<Rightarrow> u32 \<Rightarrow> u32 \<Rightarrow> u32" where
  "Ch x y z = (x AND y) XOR (NOT x AND z)"

definition Maj :: "u32 \<Rightarrow> u32 \<Rightarrow> u32 \<Rightarrow> u32" where
  "Maj x y z = (x AND y) XOR (x AND z) XOR (y AND z)"

definition Sigma0 :: "u32 \<Rightarrow> u32" where
  "Sigma0 x = rotr 2 x XOR rotr 13 x XOR rotr 22 x"

definition Sigma1 :: "u32 \<Rightarrow> u32" where
  "Sigma1 x = rotr 6 x XOR rotr 11 x XOR rotr 25 x"

definition sigma0 :: "u32 \<Rightarrow> u32" where
  "sigma0 x = rotr 7 x XOR rotr 18 x XOR drop_bit 3 x"

definition sigma1 :: "u32 \<Rightarrow> u32" where
  "sigma1 x = rotr 17 x XOR rotr 19 x XOR drop_bit 10 x"

definition K256 :: "u32 list" where
  "K256 = [
    0x428A2F98, 0x71374491, 0xB5C0FBCF, 0xE9B5DBA5, 0x3956C25B, 0x59F111F1, 0x923F82A4, 0xAB1C5ED5,
    0xD807AA98, 0x12835B01, 0x243185BE, 0x550C7DC3, 0x72BE5D74, 0x80DEB1FE, 0x9BDC06A7, 0xC19BF174,
    0xE49B69C1, 0xEFBE4786, 0x0FC19DC6, 0x240CA1CC, 0x2DE92C6F, 0x4A7484AA, 0x5CB0A9DC, 0x76F988DA,
    0x983E5152, 0xA831C66D, 0xB00327C8, 0xBF597FC7, 0xC6E00BF3, 0xD5A79147, 0x06CA6351, 0x14292967,
    0x27B70A85, 0x2E1B2138, 0x4D2C6DFC, 0x53380D13, 0x650A7354, 0x766A0ABB, 0x81C2C92E, 0x92722C85,
    0xA2BFE8A1, 0xA81A664B, 0xC24B8B70, 0xC76C51A3, 0xD192E819, 0xD6990624, 0xF40E3585, 0x106AA070,
    0x19A4C116, 0x1E376C08, 0x2748774C, 0x34B0BCB5, 0x391C0CB3, 0x4ED8AA4A, 0x5B9CCA4F, 0x682E6FF3,
    0x748F82EE, 0x78A5636F, 0x84C87814, 0x8CC70208, 0x90BEFFFA, 0xA4506CEB, 0xBEF9A3F7, 0xC67178F2]"

definition H0 :: "u32 list" where
  "H0 = [0x6a09e667, 0xbb67ae85, 0x3c6ef372, 0xa54ff53a,
         0x510e527f, 0x9b05688c, 0x1f83d9ab, 0x5be0cd19]"

definition be32 :: "byte \<Rightarrow> byte \<Rightarrow> byte \<Rightarrow> byte \<Rightarrow> u32" where
  "be32 a b c d =
     push_bit 24 (ucast a) OR push_bit 16 (ucast b) OR push_bit 8 (ucast c) OR ucast d"

fun words_of :: "byte list \<Rightarrow> u32 list" where
  "words_of (a # b # c # d # rest) = be32 a b c d # words_of rest"
| "words_of _ = []"

text \<open>The message length in bits, as 8 big-endian bytes.\<close>

definition length_bytes :: "nat \<Rightarrow> byte list" where
  "length_bytes n = map (\<lambda>i. of_nat (n div 256 ^ (7 - i))) [0, 1, 2, 3, 4, 5, 6, 7]"

definition pad :: "byte list \<Rightarrow> byte list" where
  "pad m = m @ [0x80] @ replicate ((119 - length m mod 64) mod 64) 0
             @ length_bytes (8 * length m)"

text \<open>
  The message schedule, on a window of 16 words: the first word of the window is
  \<open>W\<^sub>t\<close>, and \<open>W\<^sub>t\<^sub>+\<^sub>1\<^sub>6\<close> is appended.
\<close>

fun schedule :: "nat \<Rightarrow> u32 list \<Rightarrow> u32 list" where
  "schedule 0 w = []"
| "schedule (Suc n) w = hd w # schedule n
     (tl w @ [sigma1 (w ! 14) + w ! 9 + sigma0 (w ! 1) + w ! 0])"

fun round :: "u32 list \<Rightarrow> u32 \<times> u32 \<Rightarrow> u32 list" where
  "round [a, b, c, d, e, f, g, h] (k, w) =
     (let t1 = h + Sigma1 e + Ch e f g + k + w;
          t2 = Sigma0 a + Maj a b c
      in [t1 + t2, a, b, c, d + t1, e, f, g])"
| "round s _ = s"

definition compress :: "u32 list \<Rightarrow> u32 list \<Rightarrow> u32 list" where
  "compress h block = map2 (+) h (foldl round h (zip K256 (schedule 64 block)))"

fun blocks :: "u32 list \<Rightarrow> u32 list list" where
  "blocks [] = []"
| "blocks (w # ws) = take 16 (w # ws) # blocks (drop 16 (w # ws))"

definition word_bytes :: "u32 \<Rightarrow> byte list" where
  "word_bytes w = [ucast (drop_bit 24 w), ucast (drop_bit 16 w), ucast (drop_bit 8 w), ucast w]"

definition sha256 :: "byte list \<Rightarrow> byte list" where
  "sha256 m = concat (map word_bytes (foldl compress H0 (blocks (words_of (pad m)))))"

definition hmac_key :: "byte list \<Rightarrow> byte list" where
  "hmac_key k =
     (let k' = (if 64 < length k then sha256 k else k) in k' @ replicate (64 - length k') 0)"

definition hmac_sha256 :: "byte list \<Rightarrow> byte list \<Rightarrow> byte list" where
  "hmac_sha256 k m =
     sha256 (map (\<lambda>b. b XOR 0x5c) (hmac_key k) @ sha256 (map (\<lambda>b. b XOR 0x36) (hmac_key k) @ m))"

section \<open>The signing key\<close>

text \<open>
  \<open>sign(key, msg)\<close> is \<open>crypto.createHmac('sha256', key).update(msg).digest()\<close>. The key
  is a string in the first call of \<open>getSigningKey\<close> and a \<open>Buffer\<close> in the others, so
  the caller hands over its bytes.
\<close>

definition sign :: "byte list \<Rightarrow> string \<Rightarrow> byte list" where
  "sign key msg = hmac_sha256 key (utf8 msg)"

definition getSigningKey :: "string \<Rightarrow> string \<Rightarrow> string \<Rightarrow> string \<Rightarrow> byte list" where
  "getSigningKey secretKey dateStamp regionName serviceName =
     (let kDate = sign (utf8 (''AWS4'' @ secretKey)) dateStamp;
          kRegion = sign kDate regionName;
          kService = sign kRegion serviceName
      in sign kService ''aws4_request'')"

section \<open>Characters and text\<close>

definition LF :: char where
  "LF = CHR 0x0A"

definition lower_letters :: string where
  "lower_letters = ''abcdefghijklmnopqrstuvwxyz''"

definition upper_letters :: string where
  "upper_letters = ''ABCDEFGHIJKLMNOPQRSTUVWXYZ''"

definition is_digit :: "char \<Rightarrow> bool" where
  "is_digit c = (c \<in> set ''0123456789'')"

definition is_alpha :: "char \<Rightarrow> bool" where
  "is_alpha c = (c \<in> set lower_letters \<or> c \<in> set upper_letters)"

definition is_alnum :: "char \<Rightarrow> bool" where
  "is_alnum c = (is_alpha c \<or> is_digit c)"

definition to_upper :: "char \<Rightarrow> char" where
  "to_upper c = (case map_of (zip lower_letters upper_letters) c of Some u \<Rightarrow> u | None \<Rightarrow> c)"

definition to_lower :: "char \<Rightarrow> char" where
  "to_lower c = (case map_of (zip upper_letters lower_letters) c of Some l \<Rightarrow> l | None \<Rightarrow> c)"

text \<open>
  \<open>String.prototype.toUpperCase\<close> and the URL parser's ASCII lower-casing. On the
  letters a-z and A-Z they are the platform's; \<open>toUpperCase\<close> of a string with other
  cased letters (outside ASCII) is outside this model.
\<close>

definition toUpperCase :: "string \<Rightarrow> string" where
  "toUpperCase s = map to_upper s"

definition toLowerCase :: "string \<Rightarrow> string" where
  "toLowerCase s = map to_lower s"

text \<open>\<open>Array.prototype.join\<close> on an array of strings.\<close>

fun join :: "string \<Rightarrow> string list \<Rightarrow> string" where
  "join sep [] = []"
| "join sep [x] = x"
| "join sep (x # y # ys) = x @ sep @ join sep (y # ys)"

definition digit_char :: "nat \<Rightarrow> char" where
  "digit_char n = ''0123456789'' ! (n mod 10)"

definition HEX_digit :: "nat \<Rightarrow> char" where
  "HEX_digit n = ''0123456789ABCDEF'' ! (n mod 16)"

text \<open>The decimal digits of a natural number.\<close>

fun dec :: "nat \<Rightarrow> string" where
  "dec n = (if n < 10 then [digit_char n] else dec (n div 10) @ [digit_char n])"

declare dec.simps [simp del]

text \<open>\<open>%XX\<close>, with upper-case hexadecimal digits, for one byte.\<close>

definition percent :: "char \<Rightarrow> string" where
  "percent c = [CHR ''%'', HEX_digit (of_char c div 16), HEX_digit (of_char c)]"

text \<open>
  \<open>encodeURIComponent\<close>: every byte of the UTF-8 form is escaped but the letters, the
  digits and \<open>- _ . ! ~ * ' ( )\<close>.
\<close>

definition uri_unreserved :: "char \<Rightarrow> bool" where
  "uri_unreserved c = (is_alnum c \<or> c \<in> set ''-_.!~*()'' \<or> c = CHR 0x27)"

definition encodeURIComponent :: "string \<Rightarrow> string" where
  "encodeURIComponent s = concat (map (\<lambda>c. if uri_unreserved c then [c] else percent c) s)"

section \<open>The instant\<close>

text \<open>
  A \<open>Date\<close> holds one instant; the model keeps its UTC fields, which is all that
  \<open>toISOString\<close> reads. The clock of the platform gives instants whose fields are in
  range, see \<open>valid_Date\<close>.
\<close>

record Date =
  year :: int
  month :: nat
  day :: nat
  hours :: nat
  minutes :: nat
  seconds :: nat
  milliseconds :: nat

definition valid_Date :: "Date \<Rightarrow> bool" where
  "valid_Date d =
     (1 \<le> month d \<and> month d \<le> 12 \<and> 1 \<le> day d \<and> day d \<le> 31 \<and> hours d < 24 \<and>
      minutes d < 60 \<and> seconds d < 60 \<and> milliseconds d < 1000)"

definition padStart :: "nat \<Rightarrow> nat \<Rightarrow> string" where
  "padStart w n = replicate (w - length (dec n)) CHR ''0'' @ dec n"

text \<open>
  \<open>Date.prototype.toISOString\<close>: \<open>YYYY-MM-DDTHH:mm:ss.sssZ\<close>, and a sign with six digits
  for a year outside 0 to 9999.
\<close>

definition toISOString :: "Date \<Rightarrow> string" where
  "toISOString d =
     (if 0 \<le> year d \<and> year d \<le> 9999 then padStart 4 (nat (year d))
      else (if year d < 0 then ''-'' else ''+'') @ padStart 6 (nat \<bar>year d\<bar>))
     @ ''-'' @ padStart 2 (month d) @ ''-'' @ padStart 2 (day d)
     @ ''T'' @ padStart 2 (hours d) @ '':'' @ padStart 2 (minutes d)
     @ '':'' @ padStart 2 (seconds d) @ ''.'' @ padStart 3 (milliseconds d) @ ''Z''"

text \<open>
  \<open>.replace(/[:-]|\.\d{3}/g, '')\<close>: from left to right, a colon or a hyphen is dropped,
  and so is a full stop followed by three digits, with the digits.
\<close>

fun strip_punct :: "string \<Rightarrow> string" where
  "strip_punct [] = []"
| "strip_punct (c # cs) =
     (if c = CHR '':'' \<or> c = CHR ''-'' then strip_punct cs
      else if c = CHR ''.'' \<and> 3 \<le> length cs \<and> list_all is_digit (take 3 cs)
        then strip_punct (drop 3 cs)
      else c # strip_punct cs)"

section \<open>Structured values\<close>

text \<open>
  The values of the request and response bodies: \<open>undefined\<close>, \<open>null\<close>, booleans,
  numbers, strings, arrays and plain objects. A number is an integer below \<open>10\<^sup>2\<^sup>1\<close> in
  magnitude (other numbers are outside the model); an object is the list of its own
  properties in insertion order, with distinct keys that are not array indices.
\<close>

datatype json =
  JUndefined
  | JNull
  | JBool bool
  | JNum int
  | JStr string
  | JArr "json list"
  | JObj "(string \<times> json) list"

fun truthy :: "json \<Rightarrow> bool" where
  "truthy JUndefined = False"
| "truthy JNull = False"
| "truthy (JBool b) = b"
| "truthy (JNum n) = (n \<noteq> 0)"
| "truthy (JStr s) = (s \<noteq> [])"
| "truthy (JArr xs) = True"
| "truthy (JObj ps) = True"

text \<open>\<open>a || b\<close>\<close>

definition js_or :: "json \<Rightarrow> json \<Rightarrow> json" where
  "js_or a b = (if truthy a then a else b)"

text \<open>
  \<open>v.k\<close> for the property names the client reads (none of them is a property of a
  string, an array or a prototype), and \<open>v?.k\<close>.
\<close>

fun get_prop :: "json \<Rightarrow> string \<Rightarrow> json" where
  "get_prop (JObj ps) k = (case map_of ps k of Some v \<Rightarrow> v | None \<Rightarrow> JUndefined)"
| "get_prop _ k = JUndefined"

definition opt_prop :: "json \<Rightarrow> string \<Rightarrow> json" where
  "opt_prop v k = (if v = JNull \<or> v = JUndefined then JUndefined else get_prop v k)"

definition show_int :: "int \<Rightarrow> string" where
  "show_int i = (if i < 0 then CHR ''-'' # dec (nat (- i)) else dec (nat i))"

text \<open>The text of a string in JSON: quoted, with the escapes of \<open>JSON.stringify\<close>.\<close>

definition json_escape :: "char \<Rightarrow> string" where
  "json_escape c =
     (if c = CHR 0x22 then [CHR 0x5C, CHR 0x22]
      else if c = CHR 0x5C then [CHR 0x5C, CHR 0x5C]
      else if c = CHR 0x08 then [CHR 0x5C, CHR ''b'']
      else if c = CHR 0x0C then [CHR 0x5C, CHR ''f'']
      else if c = CHR 0x0A then [CHR 0x5C, CHR ''n'']
      else if c = CHR 0x0D then [CHR 0x5C, CHR ''r'']
      else if c = CHR 0x09 then [CHR 0x5C, CHR ''t'']
      else if (of_char c :: nat) < 32
        then [CHR 0x5C, CHR ''u'', CHR ''0'', CHR ''0'', hex_digit (of_char c div 16),
              hex_digit (of_char c)]
      else [c])"

definition json_quote :: "string \<Rightarrow> string" where
  "json_quote s = [CHR 0x22] @ concat (map json_escape s) @ [CHR 0x22]"

text \<open>
  \<open>JSON.stringify\<close>: \<open>None\<close> is its result \<open>undefined\<close>. A property whose value is
  \<open>undefined\<close> is left out of an object, and an \<open>undefined\<close> element of an array is
  written \<open>null\<close>.
\<close>

primrec stringify :: "json \<Rightarrow> string option" where
  "stringify JUndefined = None"
| "stringify JNull = Some ''null''"
| "stringify (JBool b) = Some (if b then ''true'' else ''false'')"
| "stringify (JNum n) = Some (show_int n)"
| "stringify (JStr s) = Some (json_quote s)"
| "stringify (JArr xs) =
     Some (''['' @ join '','' (map (\<lambda>r. case r of None \<Rightarrow> ''null'' | Some t \<Rightarrow> t)
                                 (map stringify xs)) @ '']'')"
| "stringify (JObj ps) =
     Some (''{'' @ join '',''
             (concat (map (\<lambda>(k, r). case r of None \<Rightarrow> [] | Some t \<Rightarrow> [json_quote k @ '':'' @ t])
                          (map (map_prod id stringify) ps))) @ ''}'')"

text \<open>
  \<open>String(v)\<close>, which a template literal applies: an array is its elements joined by
  commas, \<open>null\<close> and \<open>undefined\<close> elements being empty.
\<close>

primrec to_String :: "json \<Rightarrow> string" where
  "to_String JUndefined = ''undefined''"
| "to_String JNull = ''null''"
| "to_String (JBool b) = (if b then ''true'' else ''false'')"
| "to_String (JNum n) = show_int n"
| "to_String (JStr s) = s"
| "to_String (JArr xs) =
     join '','' (map (\<lambda>(x, t). if x = JNull \<or> x = JUndefined then [] else t)
                    (zip xs (map to_String xs)))"
| "to_String (JObj ps) = ''[object Object]''"

section \<open>Errors\<close>

record response =
  status :: nat
  data :: json

text \<open>
  The error of the HTTP library: \<open>error.response\<close> is the response when the server
  answered with a status outside 200-299, \<open>error.request\<close> is set when the request was
  made.
\<close>

record axios_error =
  err_response :: "response option"
  err_request :: bool
  err_message :: string

text \<open>
  What the client throws, as values: \<open>Error m\<close> is \<open>new Error(m)\<close>, \<open>TypeError m\<close> is
  what \<open>new URL\<close> throws, and \<open>Rethrown e\<close> is the HTTP library's error thrown again.
\<close>

datatype error = Error string | TypeError string | Rethrown axios_error

section \<open>The URL parser\<close>

record URL =
  host :: string
  pathname :: string
  search :: string

fun split_on :: "char \<Rightarrow> string \<Rightarrow> string list" where
  "split_on d [] = [[]]"
| "split_on d (c # cs) =
     (if c = d then [] # split_on d cs
      else (case split_on d cs of [] \<Rightarrow> [[c]] | x # xs \<Rightarrow> (c # x) # xs))"

definition host_char :: "char \<Rightarrow> bool" where
  "host_char c = (is_alnum c \<or> c = CHR ''-'' \<or> c = CHR ''.'')"

definition last_label :: "string \<Rightarrow> string" where
  "last_label h =
     (let ls = split_on CHR ''.'' h
      in if last ls = [] \<and> 1 < length ls then last (butlast ls) else last ls)"

definition host_ok :: "string \<Rightarrow> bool" where
  "host_ok h =
     (h \<noteq> [] \<and> list_all host_char h \<and>
      \<not> list_ex (\<lambda>l. toLowerCase (take 4 l) = ''xn--'') (split_on CHR ''.'' h) \<and>
      (case last_label h of [] \<Rightarrow> False | c # _ \<Rightarrow> is_alpha c))"

definition path_char :: "char \<Rightarrow> bool" where
  "path_char c = (is_alnum c \<or> c \<in> set ''-._~!$&()*+,;=:@/%'' \<or> c = CHR 0x27)"

definition dot_segment :: "string \<Rightarrow> bool" where
  "dot_segment seg =
     (toLowerCase seg \<in> set [''.'', ''..'', ''%2e'', ''.%2e'', ''%2e.'', ''%2e%2e''])"

definition path_ok :: "string \<Rightarrow> bool" where
  "path_ok p = (list_all path_char p \<and> \<not> list_ex dot_segment (split_on CHR ''/'' p))"

definition query_char :: "char \<Rightarrow> bool" where
  "query_char c = (32 < (of_char c :: nat) \<and> c \<noteq> CHR ''#'')"

definition query_encode :: "char \<Rightarrow> string" where
  "query_encode c =
     (if c = CHR 0x22 \<or> c = CHR ''<'' \<or> c = CHR ''>'' \<or> c = CHR 0x27 \<or> 126 < (of_char c :: nat)
      then percent c else [c])"

text \<open>
  \<open>new URL(s)\<close>, the platform's parser, on the URLs this client builds:
  \<open>https://\<close>, a host of letters, digits, hyphens and dots (no port, no credentials, no
  \<open>xn--\<close> label, a last label that starts with a letter, so that the host is a domain and
  not an IPv4 address), then a path, a query and a fragment, each optional. There the
  parser lower-cases the host, leaves a path without dot segments as it is (\<open>/\<close> when
  there is none) and escapes in the query only \<open>" < > '\<close> and the bytes above \<open>~\<close>.
  \<open>search\<close> is empty for an empty query. On any other input the model answers with
  the parser's failure, which the platform gives for some of them only: what is proved
  below about a parsed URL assumes that the parse succeeds.
\<close>

definition new_URL :: "string \<Rightarrow> error + URL" where
  "new_URL s =
     (let rest = drop 8 s;
          h = takeWhile (\<lambda>c. c \<notin> set ''/?#'') rest;
          after_host = dropWhile (\<lambda>c. c \<notin> set ''/?#'') rest;
          p = takeWhile (\<lambda>c. c \<notin> set ''?#'') after_host;
          after_path = dropWhile (\<lambda>c. c \<notin> set ''?#'') after_host;
          q = (case after_path of [] \<Rightarrow> []
               | c # cs \<Rightarrow> if c = CHR ''?'' then takeWhile (\<lambda>c. c \<noteq> CHR ''#'') cs else [])
      in if take 8 s = ''https://'' \<and> host_ok h \<and> path_ok p \<and> list_all query_char q
         then Inr \<lparr>host = toLowerCase h,
                   pathname = (if p = [] then ''/'' else p),
                   search = (if q = [] then [] else CHR ''?'' # concat (map query_encode q))\<rparr>
         else Inl (TypeError ''Invalid URL''))"

section \<open>The world of one invocation\<close>

text \<open>
  What an invocation reads and changes outside itself. \<open>clock\<close> gives the instants that
  successive \<open>new Date()\<close> calls return and \<open>reads\<close> counts the calls made so far.
  \<open>getConfig\<close> is the settings store (\<open>config.js\<close>, which is not among the sources): a
  flat mapping of string keys to string values, \<open>None\<close> for an unset key. \<open>axios\<close> is the
  HTTP call, with the server's answer, and \<open>sent\<close> lists the calls made.
\<close>

record axios_config =
  ax_method :: string
  ax_url :: string
  ax_data :: json
  ax_headers :: "(string \<times> string) list"

datatype axios_result = Resolved response | Rejected axios_error

record world =
  clock :: "nat \<Rightarrow> Date"
  reads :: nat
  getConfig :: "string \<Rightarrow> string option"
  axios :: "axios_config \<Rightarrow> axios_result"
  sent :: "axios_config list"

definition new_Date :: "world \<Rightarrow> Date \<times> world" where
  "new_Date w = (clock w (reads w), w\<lparr>reads := Suc (reads w)\<rparr>)"

section \<open>The signer\<close>

record auth_request =
  "method" :: string
  url :: string
  body :: "string option"
  service :: string
  region :: string
  accessKeyId :: string
  secretAccessKey :: string

record auth_header =
  authorization :: string
  amzDate :: string

text \<open>The values that \<open>buildAuthHeader\<close> names, each as the source computes it.\<close>

definition queryString :: "URL \<Rightarrow> string" where
  "queryString parsedUrl = (if search parsedUrl \<noteq> [] then drop 1 (search parsedUrl) else [])"

definition amzDate_of :: "Date \<Rightarrow> string" where
  "amzDate_of now = take 15 (strip_punct (toISOString now)) @ ''Z''"

definition dateStamp_of :: "string \<Rightarrow> string" where
  "dateStamp_of amz = take 8 amz"

text \<open>\<open>body || ''\<close>, hashed: \<open>None\<close> is an absent body.\<close>

definition payloadHash :: "string option \<Rightarrow> string" where
  "payloadHash b = hex (sha256 (utf8 (case b of None \<Rightarrow> [] | Some t \<Rightarrow> t)))"

definition canonicalHeaders :: "string \<Rightarrow> string \<Rightarrow> string" where
  "canonicalHeaders h amz = ''host:'' @ h @ [LF] @ ''x-amz-date:'' @ amz @ [LF]"

definition signedHeaders :: string where
  "signedHeaders = ''host;x-amz-date''"

definition canonicalRequest :: "string \<Rightarrow> URL \<Rightarrow> string \<Rightarrow> string option \<Rightarrow> string" where
  "canonicalRequest m parsedUrl amz b =
     join [LF] [toUpperCase m, pathname parsedUrl, queryString parsedUrl,
                canonicalHeaders (host parsedUrl) amz, signedHeaders, payloadHash b]"

definition credentialScope :: "string \<Rightarrow> string \<Rightarrow> string \<Rightarrow> string" where
  "credentialScope dateStamp reg svc = dateStamp @ ''/'' @ reg @ ''/'' @ svc @ ''/aws4_request''"

definition stringToSign :: "string \<Rightarrow> string \<Rightarrow> string \<Rightarrow> string" where
  "stringToSign amz scope creq =
     join [LF] [''AWS4-HMAC-SHA256'', amz, scope, hex (sha256 (utf8 creq))]"

definition buildAuthHeader :: "auth_request \<Rightarrow> world \<Rightarrow> (error + auth_header) \<times> world" where
  "buildAuthHeader r w =
     (case new_URL (url r) of
        Inl e \<Rightarrow> (Inl e, w)
      | Inr parsedUrl \<Rightarrow>
          (let (now, w') = new_Date w;
               amz = amzDate_of now;
               dateStamp = dateStamp_of amz;
               creq = canonicalRequest (method r) parsedUrl amz (body r);
               scope = credentialScope dateStamp (region r) (service r);
               sts = stringToSign amz scope creq;
               signingKey = getSigningKey (secretAccessKey r) dateStamp (region r) (service r);
               signature = hex (hmac_sha256 signingKey (utf8 sts))
           in (Inr \<lparr>authorization =
                      ''AWS4-HMAC-SHA256 Credential='' @ accessKeyId r @ ''/'' @ scope
                      @ '', SignedHeaders='' @ signedHeaders @ '', Signature='' @ signature,
                    amzDate = amz\<rparr>, w')))"

section \<open>The transport\<close>

text \<open>
  \<open>handleApiError\<close> returns \<open>Inl\<close> of what it throws; \<open>Inr ()\<close> would be a normal
  return, after which \<open>request\<close> would return \<open>undefined\<close>.
\<close>

definition api_message :: "json \<Rightarrow> string" where
  "api_message d =
     (let message = js_or (opt_prop d ''message'') (js_or (opt_prop d ''Message'')
                      (js_or (opt_prop d ''error'')
                         (case stringify d of None \<Rightarrow> JUndefined | Some t \<Rightarrow> JStr t)))
      in to_String message)"

definition handleApiError :: "axios_error \<Rightarrow> error + unit" where
  "handleApiError e =
     (case err_response e of
        Some r \<Rightarrow>
          (if status r = 401 \<or> status r = 403
             then Inl (Error ''AWS authentication failed. Check your accessKeyId and secretAccessKey.'')
           else if status r = 404 then Inl (Error ''Resource not found.'')
           else if status r = 429
             then Inl (Error ''Rate limit exceeded. Please wait before retrying.'')
           else Inl (Error (''AWS Batch Error ('' @ dec (status r) @ ''): '' @ api_message (data r))))
      | None \<Rightarrow>
          (if err_request e
             then Inl (Error ''No response from AWS Batch API. Check your internet connection and region.'')
           else Inl (Rethrown e)))"

text \<open>
  The client that \<open>getBatchClient\<close> returns: the values its \<open>request\<close> closes over. An
  unset key is \<open>undefined\<close> there, which each of its uses (a template literal, \<open>+\<close>)
  writes as the text \<open>undefined\<close>.
\<close>

record batch_client =
  cl_accessKeyId :: string
  cl_secretAccessKey :: string
  cl_region :: string
  baseURL :: string

definition undefined_or :: "string option \<Rightarrow> string" where
  "undefined_or v = (case v of None \<Rightarrow> ''undefined'' | Some t \<Rightarrow> t)"

definition getBatchClient :: "world \<Rightarrow> batch_client" where
  "getBatchClient w =
     (let reg = (case getConfig w ''region'' of
                   None \<Rightarrow> ''us-east-1''
                 | Some t \<Rightarrow> if t \<noteq> [] then t else ''us-east-1'')
      in \<lparr>cl_accessKeyId = undefined_or (getConfig w ''accessKeyId''),
          cl_secretAccessKey = undefined_or (getConfig w ''secretAccessKey''),
          cl_region = reg,
          baseURL = ''https://batch.'' @ reg @ ''.amazonaws.com''\<rparr>)"

text \<open>The text that is signed: \<open>data ? JSON.stringify(data) : ''\<close>.\<close>

definition request_body :: "json \<Rightarrow> string option" where
  "request_body d = (if truthy d then stringify d else Some [])"

text \<open>The call handed to the HTTP library.\<close>

definition request_config :: "batch_client \<Rightarrow> string \<Rightarrow> string \<Rightarrow> json \<Rightarrow> auth_header \<Rightarrow> axios_config" where
  "request_config c m path d h =
     \<lparr>ax_method = m,
      ax_url = baseURL c @ path,
      ax_data = js_or d JUndefined,
      ax_headers = [(''Authorization'', authorization h), (''X-Amz-Date'', amzDate h),
                    (''Content-Type'', ''application/json''), (''Accept'', ''application/json'')]\<rparr>"

definition request :: "batch_client \<Rightarrow> string \<Rightarrow> string \<Rightarrow> json \<Rightarrow> world \<Rightarrow> (error + json) \<times> world" where
  "request c m path d w =
     (case buildAuthHeader
             \<lparr>method = m, url = baseURL c @ path, body = request_body d, service = ''batch'',
              region = cl_region c, accessKeyId = cl_accessKeyId c,
              secretAccessKey = cl_secretAccessKey c\<rparr> w of
        (Inl e, w') \<Rightarrow> (Inl e, w')
      | (Inr h, w') \<Rightarrow>
          (let cfg = request_config c m path d h;
               w'' = w'\<lparr>sent := sent w' @ [cfg]\<rparr>
           in case axios w' cfg of
                Resolved r \<Rightarrow> (Inr (data r), w'')
              | Rejected e \<Rightarrow>
                  (case handleApiError e of
                     Inl thrown \<Rightarrow> (Inl thrown, w'')
                   | Inr _ \<Rightarrow> (Inr JUndefined, w''))))"

section \<open>The resource operations\<close>

text \<open>\<open>data?.field || []\<close>\<close>

definition envelope :: "json \<Rightarrow> string \<Rightarrow> json" where
  "envelope d field = js_or (opt_prop d field) (JArr [])"

definition unwrap :: "string \<Rightarrow> (error + json) \<times> world \<Rightarrow> (error + json) \<times> world" where
  "unwrap field res =
     (case res of (Inl e, w') \<Rightarrow> (Inl e, w') | (Inr d, w') \<Rightarrow> (Inr (envelope d field), w'))"

record submit_args =
  jobName :: json
  jobQueue :: json
  jobDefinition :: json
  parameters :: json
  containerOverrides :: json

definition submitJob_body :: "submit_args \<Rightarrow> json" where
  "submitJob_body a =
     JObj ([(''jobName'', jobName a), (''jobQueue'', jobQueue a),
            (''jobDefinition'', jobDefinition a)]
           @ (if truthy (parameters a) then [(''parameters'', parameters a)] else [])
           @ (if truthy (containerOverrides a)
              then [(''containerOverrides'', containerOverrides a)] else []))"

definition submitJob :: "submit_args \<Rightarrow> world \<Rightarrow> (error + json) \<times> world" where
  "submitJob a w = request (getBatchClient w) ''POST'' ''/v1/submitjob'' (submitJob_body a) w"

definition describeJobs :: "json \<Rightarrow> world \<Rightarrow> (error + json) \<times> world" where
  "describeJobs jobIds w =
     unwrap ''jobs'' (request (getBatchClient w) ''POST'' ''/v1/describejobs''
                        (JObj [(''jobs'', jobIds)]) w)"

record list_jobs_args =
  lj_jobQueue :: json
  lj_jobStatus :: json
  lj_maxResults :: json

definition listJobs_body :: "list_jobs_args \<Rightarrow> json" where
  "listJobs_body a =
     (let maxResults = (if lj_maxResults a = JUndefined then JNum 50 else lj_maxResults a)
      in JObj ((if truthy (lj_jobQueue a) then [(''jobQueue'', lj_jobQueue a)] else [])
               @ (if truthy (lj_jobStatus a) then [(''jobStatus'', lj_jobStatus a)] else [])
               @ (if truthy maxResults then [(''maxResults'', maxResults)] else [])))"

definition listJobs :: "list_jobs_args \<Rightarrow> world \<Rightarrow> (error + json) \<times> world" where
  "listJobs a w =
     unwrap ''jobSummaryList'' (request (getBatchClient w) ''POST'' ''/v1/listjobs''
                                  (listJobs_body a) w)"

definition listQueues :: "world \<Rightarrow> (error + json) \<times> world" where
  "listQueues w = unwrap ''jobQueues'' (request (getBatchClient w) ''GET'' ''/v1/jobqueues'' JNull w)"

text \<open>The two filters of \<open>listDefinitions\<close> are strings, \<open>None\<close> when not given.\<close>

definition listDefinitions_path :: "string option \<Rightarrow> string option \<Rightarrow> string" where
  "listDefinitions_path definitionName st =
     (let params =
            (case definitionName of
               None \<Rightarrow> []
             | Some n \<Rightarrow> if n \<noteq> [] then [''jobDefinitionName='' @ encodeURIComponent n] else [])
            @ (case st of
                 None \<Rightarrow> []
               | Some t \<Rightarrow> if t \<noteq> [] then [''status='' @ encodeURIComponent t] else [])
      in ''/v1/jobdefinitions'' @ (if params \<noteq> [] then ''?'' @ join ''&'' params else []))"

definition listDefinitions :: "string option \<Rightarrow> string option \<Rightarrow> world \<Rightarrow> (error + json) \<times> world" where
  "listDefinitions definitionName st w =
     unwrap ''jobDefinitions'' (request (getBatchClient w) ''GET''
                                  (listDefinitions_path definitionName st) JNull w)"

text \<open>
  \<open>definitionNames[0]\<close> of an empty array is \<open>undefined\<close>, which \<open>encodeURIComponent\<close>
  reads as the text \<open>undefined\<close>.
\<close>

definition describeDefinitions_path :: "string list \<Rightarrow> string" where
  "describeDefinitions_path definitionNames =
     ''/v1/jobdefinitions?jobDefinitionName=''
     @ encodeURIComponent (case definitionNames of [] \<Rightarrow> ''undefined'' | n # _ \<Rightarrow> n)"

definition describeDefinitions :: "string list \<Rightarrow> world \<Rightarrow> (error + json) \<times> world" where
  "describeDefinitions definitionNames w =
     unwrap ''jobDefinitions'' (request (getBatchClient w) ''GET''
                                  (describeDefinitions_path definitionNames) JNull w)"

section \<open>Example inputs\<close>

text \<open>Concrete requests, instants, servers and worlds, on which the theorems are run.\<close>

definition example_date :: Date where
  "example_date =
     \<lparr>year = 2015, month = 8, day = 30, hours = 12, minutes = 36, seconds = 0,
      milliseconds = 7\<rparr>"

definition example_world :: "(axios_config \<Rightarrow> axios_result) \<Rightarrow> world" where
  "example_world server =
     \<lparr>clock = (\<lambda>n. example_date), reads = 0,
      getConfig = map_of [(''accessKeyId'', ''AKIDEXAMPLE''),
                          (''secretAccessKey'', ''wJalrXUtnFEMI/K7MDENG/bPxRfiCYEXAMPLEKEY'')],
      axios = server, sent = []\<rparr>"

definition example_request :: auth_request where
  "example_request =
     \<lparr>method = ''get'',
      url = ''https://Batch.US-east-1.amazonaws.com/v1/job%20definitions?status=ACTIVE&jobDefinitionName=my%2Fdef'',
      body = Some [], service = ''batch'', region = ''us-east-1'', accessKeyId = ''AKIDEXAMPLE'',
      secretAccessKey = ''wJalrXUtnFEMI/K7MDENG/bPxRfiCYEXAMPLEKEY''\<rparr>"

definition example_url :: URL where
  "example_url =
     \<lparr>host = ''batch.us-east-1.amazonaws.com'', pathname = ''/v1/job%20definitions'',
      search = ''?status=ACTIVE&jobDefinitionName=my%2Fdef''\<rparr>"

definition ok_server :: "axios_config \<Rightarrow> axios_result" where
  "ok_server cfg =
     Resolved \<lparr>status = 200,
               data = JObj [(''jobQueues'', JArr [JObj [(''jobQueueName'', JStr ''q1'')]])]\<rparr>"

definition other_world :: world where
  "other_world =
     \<lparr>clock = (\<lambda>n. if n = 3 then example_date else example_date\<lparr>year := 1999\<rparr>),
      reads = 3, getConfig = (\<lambda>k. None),
      axios = (\<lambda>cfg. Rejected \<lparr>err_response = None, err_request = True, err_message = []\<rparr>),
      sent = []\<rparr>"




definition null_server :: "axios_config \<Rightarrow> axios_result" where
  "null_server cfg = Resolved \<lparr>status = 200, data = JObj [(''jobQueues'', JNull)]\<rparr>"

definition minimal_job :: submit_args where
  "minimal_job =
     \<lparr>jobName = JStr ''my-job'', jobQueue = JStr ''my-queue'', jobDefinition = JStr ''my-def'',
      parameters = JUndefined, containerOverrides = JUndefined\<rparr>"

definition no_filters :: list_jobs_args where
  "no_filters = \<lparr>lj_jobQueue = JUndefined, lj_jobStatus = JUndefined, lj_maxResults = JUndefined\<rparr>"

definition late_date :: Date where
  "late_date =
     \<lparr>year = 10000, month = 1, day = 1, hours = 0, minutes = 0, seconds = 0, milliseconds = 0\<rparr>"

definition late_world :: world where
  "late_world = (example_world ok_server)\<lparr>clock := (\<lambda>n. late_date)\<rparr>"



section \<open>Evaluating the hash\<close>

lemma take_bit_u32: "take_bit 32 (w :: u32) = w"
  by (rule take_bit_word_eq_self) simp

lemma rotr_eval: "rotr n x = take_bit 32 (drop_bit n x OR push_bit (32 - n) x)"
  by (simp only: rotr_def take_bit_u32)

lemma schedule_Suc:
  "schedule (Suc n) w = hd w # schedule n
     (tl w @ [take_bit 32 (sigma1 (w ! 14) + w ! 9 + sigma0 (w ! 1) + w ! 0)])"
  by (simp only: take_bit_u32 schedule.simps)

lemma schedule_numeral:
  "schedule (numeral k) w = hd w # schedule (pred_numeral k)
     (tl w @ [take_bit 32 (sigma1 (w ! 14) + w ! 9 + sigma0 (w ! 1) + w ! 0)])"
  by (subst numeral_eq_Suc [of k]) (rule schedule_Suc)

lemma schedule_1: "schedule 1 w = [hd w]"
  unfolding One_nat_def by simp

lemma round_eval:
  "round [a, b, c, d, e, f, g, h] (k, w) =
     [take_bit 32 (h + Sigma1 e + Ch e f g + k + w + (Sigma0 a + Maj a b c)), a, b, c,
      take_bit 32 (d + (h + Sigma1 e + Ch e f g + k + w)), e, f, g]"
  by (simp only: take_bit_u32 round.simps Let_def)

lemma compress_eval:
  "compress h block =
     map2 (\<lambda>x y. take_bit 32 (x + y)) h (foldl round h (zip K256 (schedule 64 block)))"
  by (simp only: compress_def take_bit_u32)

lemma replicate_numeral: "replicate (numeral k) x = x # replicate (pred_numeral k) x"
  by (simp add: numeral_eq_Suc)

lemmas sha256_eval =
  schedule_numeral schedule_1 sigma0_def sigma1_def rotr_eval
  K256_def round_eval Sigma0_def Sigma1_def Ch_def Maj_def compress_eval

lemma words_of_pad_empty:
  "words_of (pad []) = [0x80000000, 0, 0, 0, 0, 0, 0, 0, 0, 0, 0, 0, 0, 0, 0, 0]"
  by (simp add: pad_def length_bytes_def be32_def replicate_numeral)

lemma compress_empty:
  "compress H0 [0x80000000, 0, 0, 0, 0, 0, 0, 0, 0, 0, 0, 0, 0, 0, 0, 0] =
     [0xe3b0c442, 0x98fc1c14, 0x9afbf4c8, 0x996fb924, 0x27ae41e4, 0x649b934c, 0xa495991b,
      0x7852b855]"
  by (simp add: sha256_eval H0_def del: round.simps)

lemma hex_sha256_empty:
  "hex (sha256 []) = ''e3b0c44298fc1c149afbf4c8996fb92427ae41e4649b934ca495991b7852b855''"
  by (simp add: sha256_def words_of_pad_empty compress_empty word_bytes_def hex_def hex_digit_def)

lemma take_bit_byte: "take_bit 8 (b :: byte) = b"
  by (rule take_bit_word_eq_self) simp

lemma word_bytes_eval:
  "word_bytes w =
     [take_bit 8 (ucast (drop_bit 24 w)), take_bit 8 (ucast (drop_bit 16 w)),
      take_bit 8 (ucast (drop_bit 8 w)), take_bit 8 (ucast w)]"
  by (simp only: word_bytes_def take_bit_byte)

section \<open>The key chain on the example\<close>

text \<open>
  The four HMAC steps for the secret \<open>wJalrXUtnFEMI/K7MDENG/bPxRfiCYEXAMPLEKEY\<close>, the date
  \<open>20150830\<close>, the region \<open>us-east-1\<close> and the service \<open>batch\<close>, each evaluated block by
  block: two blocks for the inner hash and two for the outer one.
\<close>

lemma kDate_inner_1:
  "compress
     H0
     [0x77616502, 0x417C575A, 0x446E6342, 0x5870737B, 0x7F197D01, 0x7B727378, 0x71195466,
      0x4E64505F, 0x756F736E, 0x777B667A, 0x737D736F, 0x36363636, 0x36363636, 0x36363636,
      0x36363636, 0x36363636] =
     [0xF75673C5, 0xB0BB3017, 0x611F1FB4, 0x6FA847DD, 0x71F42E55, 0x9D91FB3A, 0x9ABFB893,
      0x8D3E74A8]"
  by (simp add: sha256_eval H0_def del: round.simps)

lemma kDate_inner_2:
  "compress
     [0xF75673C5, 0xB0BB3017, 0x611F1FB4, 0x6FA847DD, 0x71F42E55, 0x9D91FB3A, 0x9ABFB893,
      0x8D3E74A8]
     [0x32303135, 0x30383330, 0x80000000, 0x00000000, 0x00000000, 0x00000000, 0x00000000,
      0x00000000, 0x00000000, 0x00000000, 0x00000000, 0x00000000, 0x00000000, 0x00000000,
      0x00000000, 0x00000240] =
     [0x6086EB49, 0xACD98A97, 0x7FA79881, 0xB5C38314, 0xF40D201F, 0x55B6F416, 0x96570857,
      0xA5C59D98]"
  by (simp add: sha256_eval del: round.simps)

lemma kDate_outer_1:
  "compress
     H0
     [0x1D0B0F68, 0x2B163D30, 0x2E040928, 0x321A1911, 0x1573176B, 0x11181912, 0x1B733E0C,
      0x240E3A35, 0x1F051904, 0x1D110C10, 0x19171905, 0x5C5C5C5C, 0x5C5C5C5C, 0x5C5C5C5C,
      0x5C5C5C5C, 0x5C5C5C5C] =
     [0x5A995DC5, 0xA1EBB15D, 0x0BB277A9, 0x4008B217, 0xCFB2D12E, 0xC158B111, 0x646FB8D3,
      0xAE880993]"
  by (simp add: sha256_eval H0_def del: round.simps)

lemma kDate_outer_2:
  "compress
     [0x5A995DC5, 0xA1EBB15D, 0x0BB277A9, 0x4008B217, 0xCFB2D12E, 0xC158B111, 0x646FB8D3,
      0xAE880993]
     [0x6086EB49, 0xACD98A97, 0x7FA79881, 0xB5C38314, 0xF40D201F, 0x55B6F416, 0x96570857,
      0xA5C59D98, 0x80000000, 0x00000000, 0x00000000, 0x00000000, 0x00000000, 0x00000000,
      0x00000000, 0x00000300] =
     [0x68A9E453, 0x5FFBB09D, 0xCB6D2580, 0x7A9BA5E3, 0xAEF7CD00, 0xB3C57ED4, 0xB0C4A049,
      0x88649F51]"
  by (simp add: sha256_eval del: round.simps)

lemma kDate_value:
  "hmac_sha256
     (utf8 ''AWS4wJalrXUtnFEMI/K7MDENG/bPxRfiCYEXAMPLEKEY'')
     (utf8 ''20150830'') =
     [0x68, 0xA9, 0xE4, 0x53, 0x5F, 0xFB, 0xB0, 0x9D, 0xCB, 0x6D, 0x25, 0x80, 0x7A, 0x9B, 0xA5,
      0xE3, 0xAE, 0xF7, 0xCD, 0x00, 0xB3, 0xC5, 0x7E, 0xD4, 0xB0, 0xC4, 0xA0, 0x49, 0x88, 0x64,
      0x9F, 0x51]"
  by (simp add: hmac_sha256_def hmac_key_def sha256_def pad_def length_bytes_def be32_def
      utf8_def replicate_numeral word_bytes_eval kDate_inner_1 kDate_inner_2 kDate_outer_1 kDate_outer_2)

lemma kRegion_inner_1:
  "compress
     H0
     [0x5E9FD265, 0x69CD86AB, 0xFD5B13B6, 0x4CAD93D5, 0x98C1FB36, 0x85F348E2, 0x86F2967F,
      0xBE52A967, 0x36363636, 0x36363636, 0x36363636, 0x36363636, 0x36363636, 0x36363636,
      0x36363636, 0x36363636] =
     [0x0C4F8BDC, 0x0B4D6A09, 0xDA9CB3CD, 0x02EB1740, 0xE43AB0F5, 0xEB5EE7D0, 0x909DFCF8,
      0x07D8725B]"
  by (simp add: sha256_eval H0_def del: round.simps)

lemma kRegion_inner_2:
  "compress
     [0x0C4F8BDC, 0x0B4D6A09, 0xDA9CB3CD, 0x02EB1740, 0xE43AB0F5, 0xEB5EE7D0, 0x909DFCF8,
      0x07D8725B]
     [0x75732D65, 0x6173742D, 0x31800000, 0x00000000, 0x00000000, 0x00000000, 0x00000000,
      0x00000000, 0x00000000, 0x00000000, 0x00000000, 0x00000000, 0x00000000, 0x00000000,
      0x00000000, 0x00000248] =
     [0x40E6C3C4, 0x653385D2, 0x6149B1CE, 0x17626A2B, 0x7ECADFED, 0xE8F9F095, 0xFB92DB0C,
      0x2BDEAA1E]"
  by (simp add: sha256_eval del: round.simps)

lemma kRegion_outer_1:
  "compress
     H0
     [0x34F5B80F, 0x03A7ECC1, 0x973179DC, 0x26C7F9BF, 0xF2AB915C, 0xEF992288, 0xEC98FC15,
      0xD438C30D, 0x5C5C5C5C, 0x5C5C5C5C, 0x5C5C5C5C, 0x5C5C5C5C, 0x5C5C5C5C, 0x5C5C5C5C,
      0x5C5C5C5C, 0x5C5C5C5C] =
     [0xF57FD2C3, 0xE6D56745, 0xAC13D9E4, 0x697ACB63, 0x6BD8D553, 0x2AA31FA2, 0xBF3E0B99,
      0x1E6E37CC]"
  by (simp add: sha256_eval H0_def del: round.simps)

lemma kRegion_outer_2:
  "compress
     [0xF57FD2C3, 0xE6D56745, 0xAC13D9E4, 0x697ACB63, 0x6BD8D553, 0x2AA31FA2, 0xBF3E0B99,
      0x1E6E37CC]
     [0x40E6C3C4, 0x653385D2, 0x6149B1CE, 0x17626A2B, 0x7ECADFED, 0xE8F9F095, 0xFB92DB0C,
      0x2BDEAA1E, 0x80000000, 0x00000000, 0x00000000, 0x00000000, 0x00000000, 0x00000000,
      0x00000000, 0x00000300] =
     [0x85D1AD12, 0xF2880A35, 0x521589F2, 0xCD554A44, 0xA774AB29, 0x3C4D7F25, 0xB532DDE6,
      0xC083059B]"
  by (simp add: sha256_eval del: round.simps)

lemma kRegion_value:
  "hmac_sha256
     [0x68, 0xA9, 0xE4, 0x53, 0x5F, 0xFB, 0xB0, 0x9D, 0xCB, 0x6D, 0x25, 0x80, 0x7A, 0x9B, 0xA5,
      0xE3, 0xAE, 0xF7, 0xCD, 0x00, 0xB3, 0xC5, 0x7E, 0xD4, 0xB0, 0xC4, 0xA0, 0x49, 0x88, 0x64,
      0x9F, 0x51]
     (utf8 ''us-east-1'') =
     [0x85, 0xD1, 0xAD, 0x12, 0xF2, 0x88, 0x0A, 0x35, 0x52, 0x15, 0x89, 0xF2, 0xCD, 0x55, 0x4A,
      0x44, 0xA7, 0x74, 0xAB, 0x29, 0x3C, 0x4D, 0x7F, 0x25, 0xB5, 0x32, 0xDD, 0xE6, 0xC0, 0x83,
      0x05, 0x9B]"
  by (simp add: hmac_sha256_def hmac_key_def sha256_def pad_def length_bytes_def be32_def
      utf8_def replicate_numeral word_bytes_eval kRegion_inner_1 kRegion_inner_2 kRegion_outer_1 kRegion_outer_2)

lemma kService_inner_1:
  "compress
     H0
     [0xB3E79B24, 0xC4BE3C03, 0x6423BFC4, 0xFB637C72, 0x91429D1F, 0x0A7B4913, 0x8304EBD0,
      0xF6B533AD, 0x36363636, 0x36363636, 0x36363636, 0x36363636, 0x36363636, 0x36363636,
      0x36363636, 0x36363636] =
     [0x738D54E1, 0xCCCEF8BA, 0x7BAAF673, 0x075B9C13, 0xBD8B377B, 0x9E628923, 0x28335788,
      0x51E84134]"
  by (simp add: sha256_eval H0_def del: round.simps)

lemma kService_inner_2:
  "compress
     [0x738D54E1, 0xCCCEF8BA, 0x7BAAF673, 0x075B9C13, 0xBD8B377B, 0x9E628923, 0x28335788,
      0x51E84134]
     [0x62617463, 0x68800000, 0x00000000, 0x00000000, 0x00000000, 0x00000000, 0x00000000,
      0x00000000, 0x00000000, 0x00000000, 0x00000000, 0x00000000, 0x00000000, 0x00000000,
      0x00000000, 0x00000228] =
     [0x1CD06E3E, 0x80AE546E, 0x0559EB1F, 0x2747A541, 0xD20FB6AB, 0x02E1F0E3, 0x707FE34D,
      0x328DFF5B]"
  by (simp add: sha256_eval del: round.simps)

lemma kService_outer_1:
  "compress
     H0
     [0xD98DF14E, 0xAED45669, 0x0E49D5AE, 0x91091618, 0xFB28F775, 0x60112379, 0xE96E81BA,
      0x9CDF59C7, 0x5C5C5C5C, 0x5C5C5C5C, 0x5C5C5C5C, 0x5C5C5C5C, 0x5C5C5C5C, 0x5C5C5C5C,
      0x5C5C5C5C, 0x5C5C5C5C] =
     [0x5607F9D5, 0x60E9E0C1, 0x9E3CC627, 0x81389025, 0xA8370BE4, 0x5AB24A6C, 0xC2C7EF5C,
      0xFF3AE349]"
  by (simp add: sha256_eval H0_def del: round.simps)

lemma kService_outer_2:
  "compress
     [0x5607F9D5, 0x60E9E0C1, 0x9E3CC627, 0x81389025, 0xA8370BE4, 0x5AB24A6C, 0xC2C7EF5C,
      0xFF3AE349]
     [0x1CD06E3E, 0x80AE546E, 0x0559EB1F, 0x2747A541, 0xD20FB6AB, 0x02E1F0E3, 0x707FE34D,
      0x328DFF5B, 0x80000000, 0x00000000, 0x00000000, 0x00000000, 0x00000000, 0x00000000,
      0x00000000, 0x00000300] =
     [0x936CA1B4, 0xE158B6E9, 0x0E53627D, 0x664957D4, 0x8A14C245, 0x4F189D3F, 0x0127290B,
      0x448C87B1]"
  by (simp add: sha256_eval del: round.simps)

lemma kService_value:
  "hmac_sha256
     [0x85, 0xD1, 0xAD, 0x12, 0xF2, 0x88, 0x0A, 0x35, 0x52, 0x15, 0x89, 0xF2, 0xCD, 0x55, 0x4A,
      0x44, 0xA7, 0x74, 0xAB, 0x29, 0x3C, 0x4D, 0x7F, 0x25, 0xB5, 0x32, 0xDD, 0xE6, 0xC0, 0x83,
      0x05, 0x9B]
     (utf8 ''batch'') =
     [0x93, 0x6C, 0xA1, 0xB4, 0xE1, 0x58, 0xB6, 0xE9, 0x0E, 0x53, 0x62, 0x7D, 0x66, 0x49, 0x57,
      0xD4, 0x8A, 0x14, 0xC2, 0x45, 0x4F, 0x18, 0x9D, 0x3F, 0x01, 0x27, 0x29, 0x0B, 0x44, 0x8C,
      0x87, 0xB1]"
  by (simp add: hmac_sha256_def hmac_key_def sha256_def pad_def length_bytes_def be32_def
      utf8_def replicate_numeral word_bytes_eval kService_inner_1 kService_inner_2 kService_outer_1 kService_outer_2)

lemma kSigning_inner_1:
  "compress
     H0
     [0xA55A9782, 0xD76E80DF, 0x3865544B, 0x507F61E2, 0xBC22F473, 0x792EAB09, 0x37111F3D,
      0x72BAB187, 0x36363636, 0x36363636, 0x36363636, 0x36363636, 0x36363636, 0x36363636,
      0x36363636, 0x36363636] =
     [0x92FF0F14, 0x696F4353, 0x29AFA51E, 0x1DC20176, 0x4C82584E, 0xB278E8EF, 0xD81FE342,
      0x249CBD9D]"
  by (simp add: sha256_eval H0_def del: round.simps)

lemma kSigning_inner_2:
  "compress
     [0x92FF0F14, 0x696F4353, 0x29AFA51E, 0x1DC20176, 0x4C82584E, 0xB278E8EF, 0xD81FE342,
      0x249CBD9D]
     [0x61777334, 0x5F726571, 0x75657374, 0x80000000, 0x00000000, 0x00000000, 0x00000000,
      0x00000000, 0x00000000, 0x00000000, 0x00000000, 0x00000000, 0x00000000, 0x00000000,
      0x00000000, 0x00000260] =
     [0xCE5C00B8, 0x8B4C4371, 0x53EAD39E, 0x3FF376B0, 0x45B8EB91, 0xD7E3D910, 0x17EC49A4,
      0xDAFA242F]"
  by (simp add: sha256_eval del: round.simps)

lemma kSigning_outer_1:
  "compress
     H0
     [0xCF30FDE8, 0xBD04EAB5, 0x520F3E21, 0x3A150B88, 0xD6489E19, 0x1344C163, 0x5D7B7557,
      0x18D0DBED, 0x5C5C5C5C, 0x5C5C5C5C, 0x5C5C5C5C, 0x5C5C5C5C, 0x5C5C5C5C, 0x5C5C5C5C,
      0x5C5C5C5C, 0x5C5C5C5C] =
     [0xA9D92E12, 0x0DE79608, 0x64CBE4E6, 0x623E9252, 0x6089C28A, 0x9BEA0C1A, 0xD7321D0A,
      0x0FF6EC36]"
  by (simp add: sha256_eval H0_def del: round.simps)

lemma kSigning_outer_2:
  "compress
     [0xA9D92E12, 0x0DE79608, 0x64CBE4E6, 0x623E9252, 0x6089C28A, 0x9BEA0C1A, 0xD7321D0A,
      0x0FF6EC36]
     [0xCE5C00B8, 0x8B4C4371, 0x53EAD39E, 0x3FF376B0, 0x45B8EB91, 0xD7E3D910, 0x17EC49A4,
      0xDAFA242F, 0x80000000, 0x00000000, 0x00000000, 0x00000000, 0x00000000, 0x00000000,
      0x00000000, 0x00000300] =
     [0xF3C67615, 0xCB5ACFD0, 0xB48AEE20, 0xA49BF9F9, 0x8D790D5D, 0x7DB5D604, 0x6CC2CA04,
      0xD501FEEE]"
  by (simp add: sha256_eval del: round.simps)

lemma kSigning_value:
  "hmac_sha256
     [0x93, 0x6C, 0xA1, 0xB4, 0xE1, 0x58, 0xB6, 0xE9, 0x0E, 0x53, 0x62, 0x7D, 0x66, 0x49, 0x57,
      0xD4, 0x8A, 0x14, 0xC2, 0x45, 0x4F, 0x18, 0x9D, 0x3F, 0x01, 0x27, 0x29, 0x0B, 0x44, 0x8C,
      0x87, 0xB1]
     (utf8 ''aws4_request'') =
     [0xF3, 0xC6, 0x76, 0x15, 0xCB, 0x5A, 0xCF, 0xD0, 0xB4, 0x8A, 0xEE, 0x20, 0xA4, 0x9B, 0xF9,
      0xF9, 0x8D, 0x79, 0x0D, 0x5D, 0x7D, 0xB5, 0xD6, 0x04, 0x6C, 0xC2, 0xCA, 0x04, 0xD5, 0x01,
      0xFE, 0xEE]"
  by (simp add: hmac_sha256_def hmac_key_def sha256_def pad_def length_bytes_def be32_def
      utf8_def replicate_numeral word_bytes_eval kSigning_inner_1 kSigning_inner_2 kSigning_outer_1 kSigning_outer_2)

lemma getSigningKey_example:
  "getSigningKey ''wJalrXUtnFEMI/K7MDENG/bPxRfiCYEXAMPLEKEY'' ''20150830'' ''us-east-1'' ''batch'' =
     [0xF3, 0xC6, 0x76, 0x15, 0xCB, 0x5A, 0xCF, 0xD0, 0xB4, 0x8A, 0xEE, 0x20, 0xA4, 0x9B, 0xF9, 0xF9, 0x8D, 0x79, 0x0D, 0x5D, 0x7D, 0xB5, 0xD6, 0x04, 0x6C, 0xC2, 0xCA, 0x04, 0xD5, 0x01, 0xFE, 0xEE]"
  by (simp add: getSigningKey_def sign_def kDate_value kRegion_value kService_value kSigning_value)

section \<open>The digest is 32 bytes\<close>

lemma length_round: "length (round s kw) = length s"
  by (induction s kw rule: round.induct) (simp_all add: Let_def)

lemma length_foldl_round: "length (foldl round h xs) = length h"
  by (induction xs arbitrary: h) (simp_all add: length_round)

lemma length_compress: "length (compress h b) = length h"
  by (simp add: compress_def length_foldl_round)

lemma length_foldl_compress: "length (foldl compress h bs) = length h"
  by (induction bs arbitrary: h) (simp_all add: length_compress)

lemma length_concat_word_bytes: "length (concat (map word_bytes ws)) = 4 * length ws"
  by (induction ws) (simp_all add: word_bytes_def)

lemma length_sha256: "length (sha256 m) = 32"
  by (simp add: sha256_def length_concat_word_bytes length_foldl_compress H0_def)

lemma length_hmac_sha256: "length (hmac_sha256 k m) = 32"
  by (simp add: hmac_sha256_def length_sha256)

section \<open>Key derivation\<close>

text \<open>
  C1. For every secret, date stamp, region and service, \<open>getSigningKey\<close> returns the
  bytes of the four-step chain: HMAC-SHA256 keyed with \<open>"AWS4" + secret\<close> over the date
  stamp, the result keying the HMAC of the region, that one keying the HMAC of the
  service, and that one keying the HMAC of \<open>"aws4_request"\<close>. The result is the raw
  digest, 32 bytes, not its hexadecimal text. On the example secret, date \<open>20150830\<close>,
  region \<open>us-east-1\<close> and service \<open>batch\<close> the key is, in hexadecimal,
  \<open>f3c67615cb5acfd0b48aee20a49bf9f98d790d5d7db5d6046cc2ca04d501feee\<close>, the value of the
  four-step chain of standard HMAC-SHA256 on these inputs.
\<close>

theorem getSigningKey_chain:
  "getSigningKey secret dateStamp regionName serviceName =
     hmac_sha256
       (hmac_sha256
          (hmac_sha256
             (hmac_sha256 (utf8 (''AWS4'' @ secret)) (utf8 dateStamp))
             (utf8 regionName))
          (utf8 serviceName))
       (utf8 ''aws4_request'')
   \<and> length (getSigningKey secret dateStamp regionName serviceName) = 32
   \<and> hex (getSigningKey ''wJalrXUtnFEMI/K7MDENG/bPxRfiCYEXAMPLEKEY'' ''20150830'' ''us-east-1''
             ''batch'') =
       ''f3c67615cb5acfd0b48aee20a49bf9f98d790d5d7db5d6046cc2ca04d501feee''"
proof (intro conjI)
  show "getSigningKey secret dateStamp regionName serviceName =
     hmac_sha256
       (hmac_sha256
          (hmac_sha256
             (hmac_sha256 (utf8 (''AWS4'' @ secret)) (utf8 dateStamp))
             (utf8 regionName))
          (utf8 serviceName))
       (utf8 ''aws4_request'')"
    by (simp add: getSigningKey_def sign_def)
  then show "length (getSigningKey secret dateStamp regionName serviceName) = 32"
    by (simp only: length_hmac_sha256)
  show "hex (getSigningKey ''wJalrXUtnFEMI/K7MDENG/bPxRfiCYEXAMPLEKEY'' ''20150830'' ''us-east-1''
               ''batch'') =
        ''f3c67615cb5acfd0b48aee20a49bf9f98d790d5d7db5d6046cc2ca04d501feee''"
    by (simp add: getSigningKey_example hex_def hex_digit_def)
qed

section \<open>The payload hash of an empty body\<close>

text \<open>
  C4. A request with no body (absent, or the empty string that the transport passes for
  a call without data) has as payload hash the SHA-256 digest of the empty string,
  \<open>e3b0c44298fc1c149afbf4c8996fb92427ae41e4649b934ca495991b7852b855\<close>, and this is the last
  line of its canonical request.
\<close>

theorem payloadHash_empty_body:
  "payloadHash None = ''e3b0c44298fc1c149afbf4c8996fb92427ae41e4649b934ca495991b7852b855''
   \<and> payloadHash (Some []) = ''e3b0c44298fc1c149afbf4c8996fb92427ae41e4649b934ca495991b7852b855''
   \<and> payloadHash (request_body JNull) =
       ''e3b0c44298fc1c149afbf4c8996fb92427ae41e4649b934ca495991b7852b855''
   \<and> canonicalRequest m parsedUrl amz None =
       join [LF] [toUpperCase m, pathname parsedUrl, queryString parsedUrl,
                  canonicalHeaders (host parsedUrl) amz, signedHeaders,
                  ''e3b0c44298fc1c149afbf4c8996fb92427ae41e4649b934ca495991b7852b855'']"
  by (simp add: payloadHash_def request_body_def canonicalRequest_def utf8_def hex_sha256_empty)

section \<open>The URL parser on an example\<close>

lemma example_world_fields:
  "axios (example_world server) = server"
  "reads (example_world server) = 0"
  "sent (example_world server) = []"
  "clock (example_world server) n = example_date"
  by (simp_all add: example_world_def)

lemmas char_class_defs =
  is_digit_def is_alpha_def is_alnum_def lower_letters_def upper_letters_def
  to_upper_def to_lower_def toUpperCase_def toLowerCase_def

lemmas url_defs =
  new_URL_def host_ok_def host_char_def last_label_def path_ok_def path_char_def
  dot_segment_def query_char_def query_encode_def percent_def HEX_digit_def

lemma new_URL_example_text:
  "new_URL ''https://Batch.US-east-1.amazonaws.com/v1/job%20definitions?status=ACTIVE&jobDefinitionName=my%2Fdef'' =
     Inr example_url"
  by (simp add: example_url_def url_defs char_class_defs Let_def)

lemma new_URL_example: "new_URL (url example_request) = Inr example_url"
  by (simp add: example_request_def new_URL_example_text)

section \<open>The timestamp\<close>

lemma digit_char_cases: "digit_char n \<in> set ''0123456789''"
  unfolding digit_char_def by (rule nth_mem) simp

lemma digit_char_0: "digit_char 0 = CHR ''0''"
  by (simp add: digit_char_def)

lemma is_digit_digit_char [simp]: "is_digit (digit_char n)"
  using digit_char_cases [of n] by (simp add: is_digit_def)

lemma digit_char_not_punct [simp]:
  "digit_char n \<noteq> CHR '':''" "digit_char n \<noteq> CHR ''-''" "digit_char n \<noteq> CHR ''.''"
  using digit_char_cases [of n] by auto

lemma dec_1: "n < 10 \<Longrightarrow> dec n = [digit_char n]"
  by (simp add: dec.simps)

lemma dec_2: "10 \<le> n \<Longrightarrow> n < 100 \<Longrightarrow> dec n = [digit_char (n div 10), digit_char n]"
  by (subst dec.simps) (simp add: dec_1)

lemma dec_3:
  "100 \<le> n \<Longrightarrow> n < 1000 \<Longrightarrow>
     dec n = [digit_char (n div 100), digit_char (n div 10), digit_char n]"
  by (subst dec.simps) (simp add: dec_2 div_mult2_eq [symmetric])

lemma dec_4:
  "1000 \<le> n \<Longrightarrow> n < 10000 \<Longrightarrow>
     dec n = [digit_char (n div 1000), digit_char (n div 100), digit_char (n div 10), digit_char n]"
  by (subst dec.simps) (simp add: dec_3 div_mult2_eq [symmetric])

lemma padStart_2:
  assumes "n < 100"
  shows "padStart 2 n = [digit_char (n div 10), digit_char n]"
proof (cases "n < 10")
  case True
  then show ?thesis by (simp add: padStart_def dec_1 digit_char_0 replicate_numeral)
next
  case False
  with assms show ?thesis by (simp add: padStart_def dec_2)
qed

lemma padStart_3:
  assumes "n < 1000"
  shows "padStart 3 n = [digit_char (n div 100), digit_char (n div 10), digit_char n]"
proof -
  consider "n < 10" | "10 \<le> n" "n < 100" | "100 \<le> n"
    by linarith
  then show ?thesis
  proof cases
    case 1
    then show ?thesis by (simp add: padStart_def dec_1 digit_char_0 replicate_numeral)
  next
    case 2
    then show ?thesis by (simp add: padStart_def dec_2 digit_char_0 replicate_numeral)
  next
    case 3
    with assms show ?thesis by (simp add: padStart_def dec_3)
  qed
qed

lemma padStart_4:
  assumes "n < 10000"
  shows "padStart 4 n =
    [digit_char (n div 1000), digit_char (n div 100), digit_char (n div 10), digit_char n]"
proof -
  consider "n < 10" | "10 \<le> n" "n < 100" | "100 \<le> n" "n < 1000" | "1000 \<le> n"
    by linarith
  then show ?thesis
  proof cases
    case 1
    then show ?thesis by (simp add: padStart_def dec_1 digit_char_0 replicate_numeral)
  next
    case 2
    then show ?thesis by (simp add: padStart_def dec_2 digit_char_0 replicate_numeral)
  next
    case 3
    then show ?thesis by (simp add: padStart_def dec_3 digit_char_0 replicate_numeral)
  next
    case 4
    with assms show ?thesis by (simp add: padStart_def dec_4)
  qed
qed

lemma amzDate_of_standard:
  assumes "valid_Date d" and "0 \<le> year d" and "year d \<le> 9999"
  shows "amzDate_of d =
           padStart 4 (nat (year d)) @ padStart 2 (month d) @ padStart 2 (day d) @ ''T''
           @ padStart 2 (hours d) @ padStart 2 (minutes d) @ padStart 2 (seconds d) @ ''Z''"
proof -
  have y: "nat (year d) < 10000" using assms by simp
  have f: "month d < 100" "day d < 100" "hours d < 100" "minutes d < 100" "seconds d < 100"
    "milliseconds d < 1000"
    using assms(1) by (simp_all add: valid_Date_def)
  show ?thesis
    using assms(2,3)
    by (simp add: amzDate_of_def toISOString_def padStart_4 [OF y] padStart_2 [OF f(1)]
        padStart_2 [OF f(2)] padStart_2 [OF f(3)] padStart_2 [OF f(4)] padStart_2 [OF f(5)]
        padStart_3 [OF f(6)])
qed

lemma length_amzDate_of_standard:
  assumes "valid_Date d" and "0 \<le> year d" and "year d \<le> 9999"
  shows "length (amzDate_of d) = 16"
    and "take 8 (amzDate_of d) = padStart 4 (nat (year d)) @ padStart 2 (month d) @ padStart 2 (day d)"
proof -
  have y: "nat (year d) < 10000" using assms by simp
  have f: "month d < 100" "day d < 100" "hours d < 100" "minutes d < 100" "seconds d < 100"
    using assms(1) by (simp_all add: valid_Date_def)
  note a = amzDate_of_standard [OF assms]
  show "length (amzDate_of d) = 16"
    by (simp add: a padStart_4 [OF y] padStart_2 [OF f(1)]
        padStart_2 [OF f(2)] padStart_2 [OF f(3)] padStart_2 [OF f(4)] padStart_2 [OF f(5)])
  show "take 8 (amzDate_of d) = padStart 4 (nat (year d)) @ padStart 2 (month d) @ padStart 2 (day d)"
    by (simp add: a padStart_4 [OF y] padStart_2 [OF f(1)]
        padStart_2 [OF f(2)] padStart_2 [OF f(3)] padStart_2 [OF f(4)] padStart_2 [OF f(5)])
qed

section \<open>Properties of the signer\<close>

lemma buildAuthHeader_parsed:
  assumes "new_URL (url r) = Inr parsedUrl"
  shows "buildAuthHeader r w =
     (let amz = amzDate_of (clock w (reads w));
          scope = credentialScope (dateStamp_of amz) (region r) (service r);
          sts = stringToSign amz scope (canonicalRequest (method r) parsedUrl amz (body r))
      in (Inr \<lparr>authorization =
                 ''AWS4-HMAC-SHA256 Credential='' @ accessKeyId r @ ''/'' @ scope
                 @ '', SignedHeaders='' @ signedHeaders @ '', Signature=''
                 @ hex (hmac_sha256
                          (getSigningKey (secretAccessKey r) (dateStamp_of amz) (region r) (service r))
                          (utf8 sts)),
               amzDate = amz\<rparr>,
          w\<lparr>reads := Suc (reads w)\<rparr>))"
  using assms by (simp add: buildAuthHeader_def new_Date_def Let_def)

lemma buildAuthHeader_failed:
  assumes "new_URL (url r) = Inl e"
  shows "buildAuthHeader r w = (Inl e, w)"
  using assms by (simp add: buildAuthHeader_def)

lemma to_lower_idem: "to_lower (to_lower c) = to_lower c"
  by (simp add: to_lower_def upper_letters_def lower_letters_def)

lemma toLowerCase_idem: "toLowerCase (toLowerCase s) = toLowerCase s"
  by (simp add: toLowerCase_def to_lower_idem)

lemma new_URL_host_lower:
  assumes "new_URL s = Inr parsedUrl"
  shows "toLowerCase (host parsedUrl) = host parsedUrl"
  using assms
  by (auto simp: new_URL_def Let_def toLowerCase_idem split: if_splits)

text \<open>
  C2. For a URL that parses, the canonical request is six fields joined by newlines: the
  method in upper case; the path of the parsed URL as it is; its query string as it is
  (\<open>search\<close> without the question mark), or nothing when there is none; the two header
  lines \<open>host:\<close> and \<open>x-amz-date:\<close>, each ended by a newline, in that order; the list
  \<open>host;x-amz-date\<close>; and the lower-case hexadecimal SHA-256 digest of the body. The host
  of the parsed URL is in lower case. The example has an upper-case host, percent-escapes
  in the path and in the query, which stay as they are, and two query parameters that are
  not in sorted order, which stay in their order.
\<close>

theorem canonicalRequest_six_fields:
  assumes "new_URL s = Inr parsedUrl"
  shows "canonicalRequest m parsedUrl amz b =
           toUpperCase m @ [LF]
           @ pathname parsedUrl @ [LF]
           @ (if search parsedUrl = [] then [] else tl (search parsedUrl)) @ [LF]
           @ ''host:'' @ host parsedUrl @ [LF] @ ''x-amz-date:'' @ amz @ [LF] @ [LF]
           @ ''host;x-amz-date'' @ [LF]
           @ hex (sha256 (utf8 (case b of None \<Rightarrow> [] | Some t \<Rightarrow> t)))
         \<and> toLowerCase (host parsedUrl) = host parsedUrl"
proof
  show "canonicalRequest m parsedUrl amz b =
           toUpperCase m @ [LF]
           @ pathname parsedUrl @ [LF]
           @ (if search parsedUrl = [] then [] else tl (search parsedUrl)) @ [LF]
           @ ''host:'' @ host parsedUrl @ [LF] @ ''x-amz-date:'' @ amz @ [LF] @ [LF]
           @ ''host;x-amz-date'' @ [LF]
           @ hex (sha256 (utf8 (case b of None \<Rightarrow> [] | Some t \<Rightarrow> t)))"
    by (simp add: canonicalRequest_def queryString_def canonicalHeaders_def signedHeaders_def
        payloadHash_def drop_Suc)
  show "toLowerCase (host parsedUrl) = host parsedUrl"
    by (rule new_URL_host_lower [OF assms])
qed

theorem canonicalRequest_six_fields_witness:
  "new_URL (url example_request) = Inr example_url
   \<and> canonicalRequest ''get'' example_url ''20150830T123600Z'' None =
       ''GET'' @ [LF] @ ''/v1/job%20definitions'' @ [LF]
       @ ''status=ACTIVE&jobDefinitionName=my%2Fdef'' @ [LF]
       @ ''host:batch.us-east-1.amazonaws.com'' @ [LF] @ ''x-amz-date:20150830T123600Z'' @ [LF] @ [LF]
       @ ''host;x-amz-date'' @ [LF] @ hex (sha256 (utf8 []))
   \<and> toLowerCase (host example_url) = host example_url"
  using canonicalRequest_six_fields [OF new_URL_example, of "''get''" "''20150830T123600Z''" None]
  by (simp add: new_URL_example example_url_def char_class_defs)

text \<open>
  C3. For a request whose URL parses, the signer returns the authorization value
  \<open>AWS4-HMAC-SHA256 Credential=<accessKeyId>/<scope>, SignedHeaders=host;x-amz-date,
  Signature=<signature>\<close>, where the scope is \<open><dateStamp>/<region>/<service>/aws4_request\<close>,
  the string to sign is \<open>AWS4-HMAC-SHA256\<close>, the timestamp, the scope and the hexadecimal
  SHA-256 digest of the canonical request, joined by newlines, and the signature is the
  hexadecimal HMAC-SHA256 of the string to sign under the key that \<open>getSigningKey\<close>
  derives from the secret, the date stamp, the region and the service.
\<close>

theorem buildAuthHeader_authorization:
  assumes "new_URL (url r) = Inr parsedUrl"
  shows "fst (buildAuthHeader r w) =
     (let amz = amzDate_of (clock w (reads w));
          dateStamp = take 8 amz;
          scope = dateStamp @ ''/'' @ region r @ ''/'' @ service r @ ''/aws4_request'';
          sts = ''AWS4-HMAC-SHA256'' @ [LF] @ amz @ [LF] @ scope @ [LF]
                @ hex (sha256 (utf8 (canonicalRequest (method r) parsedUrl amz (body r))));
          signingKey = getSigningKey (secretAccessKey r) dateStamp (region r) (service r);
          signature = hex (hmac_sha256 signingKey (utf8 sts))
      in Inr \<lparr>authorization =
                 ''AWS4-HMAC-SHA256 Credential='' @ accessKeyId r @ ''/'' @ scope
                 @ '', SignedHeaders=host;x-amz-date, Signature='' @ signature,
               amzDate = amz\<rparr>)"
  by (simp add: buildAuthHeader_parsed [OF assms] Let_def credentialScope_def stringToSign_def
      dateStamp_of_def signedHeaders_def)

lemma valid_example_date: "valid_Date example_date \<and> 0 \<le> year example_date \<and> year example_date \<le> 9999"
  by (simp add: valid_Date_def example_date_def)

lemma amzDate_of_example: "amzDate_of example_date = ''20150830T123600Z''"
  using valid_example_date
  by (simp add: amzDate_of_standard padStart_4 padStart_2 example_date_def digit_char_def)

theorem buildAuthHeader_authorization_witness:
  "new_URL (url example_request) = Inr example_url
   \<and> fst (buildAuthHeader example_request (example_world ok_server)) =
       Inr \<lparr>authorization =
              ''AWS4-HMAC-SHA256 Credential=AKIDEXAMPLE/20150830/us-east-1/batch/aws4_request''
              @ '', SignedHeaders=host;x-amz-date, Signature=''
              @ hex (hmac_sha256
                       (getSigningKey ''wJalrXUtnFEMI/K7MDENG/bPxRfiCYEXAMPLEKEY'' ''20150830''
                          ''us-east-1'' ''batch'')
                       (utf8 (''AWS4-HMAC-SHA256'' @ [LF] @ ''20150830T123600Z'' @ [LF]
                              @ ''20150830/us-east-1/batch/aws4_request'' @ [LF]
                              @ hex (sha256 (utf8 (canonicalRequest ''get'' example_url
                                                     ''20150830T123600Z'' (Some []))))))),
            amzDate = ''20150830T123600Z''\<rparr>"
  using buildAuthHeader_authorization [OF new_URL_example, of "example_world ok_server"]
  by (simp add: new_URL_example_text example_world_def amzDate_of_example example_request_def Let_def)

lemma is_digit_dec: "list_all is_digit (dec n)"
proof (induction n rule: dec.induct)
  case (1 n)
  show ?case
  proof (cases "n < 10")
    case True
    then show ?thesis by (simp add: dec_1)
  next
    case False
    with 1 have "list_all is_digit (dec (n div 10))" by simp
    with False show ?thesis by (subst dec.simps) simp
  qed
qed

lemma is_digit_zero: "is_digit CHR ''0''"
  by (simp add: is_digit_def)

lemma is_digit_zeros: "list_all is_digit (replicate m CHR ''0'')"
  by (induction m) (simp_all add: is_digit_zero)

lemma is_digit_padStart: "list_all is_digit (padStart k n)"
  by (simp add: padStart_def is_digit_dec is_digit_zeros)

lemma length_padStart: "k \<le> length (padStart k n)"
  by (simp add: padStart_def)

lemma strip_punct_digits:
  "list_all is_digit ds \<Longrightarrow> strip_punct (ds @ rest) = ds @ strip_punct rest"
  by (induction ds) (auto simp: is_digit_def)

lemma strip_punct_time:
  assumes "valid_Date d"
  shows "strip_punct
           (''-'' @ padStart 2 (month d) @ ''-'' @ padStart 2 (day d) @ ''T''
            @ padStart 2 (hours d) @ '':'' @ padStart 2 (minutes d) @ '':''
            @ padStart 2 (seconds d) @ ''.'' @ padStart 3 (milliseconds d) @ ''Z'') =
         padStart 2 (month d) @ padStart 2 (day d) @ ''T'' @ padStart 2 (hours d)
         @ padStart 2 (minutes d) @ padStart 2 (seconds d) @ ''Z''"
proof -
  have f: "month d < 100" "day d < 100" "hours d < 100" "minutes d < 100" "seconds d < 100"
    "milliseconds d < 1000"
    using assms by (simp_all add: valid_Date_def)
  show ?thesis
    by (simp add: padStart_2 [OF f(1)] padStart_2 [OF f(2)] padStart_2 [OF f(3)]
        padStart_2 [OF f(4)] padStart_2 [OF f(5)] padStart_3 [OF f(6)])
qed

lemma length_time:
  assumes "valid_Date d"
  shows "length (padStart 2 (month d) @ padStart 2 (day d) @ ''T'' @ padStart 2 (hours d)
                 @ padStart 2 (minutes d) @ padStart 2 (seconds d) @ ''Z'') = 12"
proof -
  have f: "month d < 100" "day d < 100" "hours d < 100" "minutes d < 100" "seconds d < 100"
    using assms by (simp_all add: valid_Date_def)
  show ?thesis
    by (simp add: padStart_2 [OF f(1)] padStart_2 [OF f(2)] padStart_2 [OF f(3)]
        padStart_2 [OF f(4)] padStart_2 [OF f(5)])
qed

lemma length_amzDate_of:
  assumes "valid_Date d"
  shows "length (amzDate_of d) = 16"
proof -
  let ?t = "padStart 2 (month d) @ padStart 2 (day d) @ ''T'' @ padStart 2 (hours d)
            @ padStart 2 (minutes d) @ padStart 2 (seconds d) @ ''Z''"
  note t = strip_punct_time [OF assms]
  note l = length_time [OF assms]
  have "15 \<le> length (strip_punct (toISOString d))"
  proof (cases "0 \<le> year d \<and> year d \<le> 9999")
    case True
    then have "strip_punct (toISOString d) = padStart 4 (nat (year d)) @ ?t"
      using strip_punct_digits [OF is_digit_padStart, of 4 "nat (year d)"] t
      by (simp add: toISOString_def)
    then show ?thesis
      using length_padStart [of 4 "nat (year d)"] l by simp
  next
    case False
    show ?thesis
    proof (cases "year d < 0")
      case True
      then have "strip_punct (toISOString d) = padStart 6 (nat \<bar>year d\<bar>) @ ?t"
        using strip_punct_digits [OF is_digit_padStart, of 6 "nat \<bar>year d\<bar>"] t
        by (simp add: toISOString_def)
      then show ?thesis
        using length_padStart [of 6 "nat \<bar>year d\<bar>"] l by simp
    next
      case False
      with \<open>\<not> (0 \<le> year d \<and> year d \<le> 9999)\<close>
      have "strip_punct (toISOString d) = ''+'' @ padStart 6 (nat \<bar>year d\<bar>) @ ?t"
        using strip_punct_digits [OF is_digit_padStart, of 6 "nat \<bar>year d\<bar>"] t
        by (simp add: toISOString_def)
      then show ?thesis
        using length_padStart [of 6 "nat \<bar>year d\<bar>"] l by simp
    qed
  qed
  then show ?thesis by (simp add: amzDate_of_def)
qed

lemma amzDate_of_late: "amzDate_of late_date = ''+0100000101T000Z''"
  by (simp add: amzDate_of_def toISOString_def late_date_def padStart_def dec.simps
      digit_char_def replicate_numeral)

text \<open>
  C8, as amended. A signing operation reads the clock once. The timestamp is the first 15
  characters of the ISO timestamp of that instant with colons, hyphens and the sub-second
  fraction stripped, followed by \<open>Z\<close>: 16 characters, and for an instant of a year from
  0000 to 9999 exactly \<open>YYYYMMDDTHHMMSSZ\<close>. The date stamp of the credential scope and of
  the key derivation is the first 8 characters of that same timestamp, \<open>YYYYMMDD\<close> for
  such a year.
\<close>

theorem buildAuthHeader_one_instant:
  assumes "new_URL (url r) = Inr parsedUrl"
  shows "(let now = clock w (reads w);
              amz = take 15 (strip_punct (toISOString now)) @ ''Z'';
              dateStamp = take 8 amz;
              scope = credentialScope dateStamp (region r) (service r)
          in buildAuthHeader r w =
               (Inr \<lparr>authorization =
                       ''AWS4-HMAC-SHA256 Credential='' @ accessKeyId r @ ''/'' @ scope
                       @ '', SignedHeaders=host;x-amz-date, Signature=''
                       @ hex (hmac_sha256
                                (getSigningKey (secretAccessKey r) dateStamp (region r) (service r))
                                (utf8 (stringToSign amz scope
                                         (canonicalRequest (method r) parsedUrl amz (body r))))),
                     amzDate = amz\<rparr>,
                w\<lparr>reads := Suc (reads w)\<rparr>)
             \<and> (valid_Date now \<longrightarrow> length amz = 16)
             \<and> (valid_Date now \<and> 0 \<le> year now \<and> year now \<le> 9999 \<longrightarrow>
                  amz = padStart 4 (nat (year now)) @ padStart 2 (month now) @ padStart 2 (day now)
                        @ ''T'' @ padStart 2 (hours now) @ padStart 2 (minutes now)
                        @ padStart 2 (seconds now) @ ''Z''
                  \<and> dateStamp = padStart 4 (nat (year now)) @ padStart 2 (month now)
                                  @ padStart 2 (day now)))"
proof -
  let ?now = "clock w (reads w)"
  have b: "buildAuthHeader r w =
      (Inr \<lparr>authorization =
              ''AWS4-HMAC-SHA256 Credential='' @ accessKeyId r @ ''/''
              @ credentialScope (take 8 (amzDate_of ?now)) (region r) (service r)
              @ '', SignedHeaders=host;x-amz-date, Signature=''
              @ hex (hmac_sha256
                       (getSigningKey (secretAccessKey r) (take 8 (amzDate_of ?now)) (region r)
                          (service r))
                       (utf8 (stringToSign (amzDate_of ?now)
                                (credentialScope (take 8 (amzDate_of ?now)) (region r) (service r))
                                (canonicalRequest (method r) parsedUrl (amzDate_of ?now)
                                   (body r))))),
            amzDate = amzDate_of ?now\<rparr>,
       w\<lparr>reads := Suc (reads w)\<rparr>)"
    by (simp add: buildAuthHeader_parsed [OF assms] Let_def dateStamp_of_def signedHeaders_def)
  have l: "length (amzDate_of ?now) = 16" if "valid_Date ?now"
    using that by (rule length_amzDate_of)
  have f: "amzDate_of ?now =
             padStart 4 (nat (year ?now)) @ padStart 2 (month ?now) @ padStart 2 (day ?now)
             @ ''T'' @ padStart 2 (hours ?now) @ padStart 2 (minutes ?now)
             @ padStart 2 (seconds ?now) @ ''Z''"
    and s: "take 8 (amzDate_of ?now) =
             padStart 4 (nat (year ?now)) @ padStart 2 (month ?now) @ padStart 2 (day ?now)"
    if "valid_Date ?now \<and> 0 \<le> year ?now \<and> year ?now \<le> 9999"
    using that amzDate_of_standard [of ?now] length_amzDate_of_standard(2) [of ?now]
    by simp_all
  show ?thesis
    unfolding Let_def amzDate_of_def [symmetric]
    by (intro conjI impI b l f s) simp_all
qed

theorem buildAuthHeader_one_instant_witness:
  "new_URL (url example_request) = Inr example_url
   \<and> valid_Date (clock (example_world ok_server) (reads (example_world ok_server)))
   \<and> 0 \<le> year (clock (example_world ok_server) (reads (example_world ok_server)))
   \<and> year (clock (example_world ok_server) (reads (example_world ok_server))) \<le> 9999
   \<and> buildAuthHeader example_request (example_world ok_server) =
       (Inr \<lparr>authorization =
               ''AWS4-HMAC-SHA256 Credential=AKIDEXAMPLE/''
               @ credentialScope ''20150830'' ''us-east-1'' ''batch''
               @ '', SignedHeaders=host;x-amz-date, Signature=''
               @ hex (hmac_sha256
                        (getSigningKey ''wJalrXUtnFEMI/K7MDENG/bPxRfiCYEXAMPLEKEY'' ''20150830''
                           ''us-east-1'' ''batch'')
                        (utf8 (stringToSign ''20150830T123600Z''
                                 (credentialScope ''20150830'' ''us-east-1'' ''batch'')
                                 (canonicalRequest ''get'' example_url ''20150830T123600Z''
                                    (Some []))))),
             amzDate = ''20150830T123600Z''\<rparr>,
        (example_world ok_server)\<lparr>reads := Suc 0\<rparr>)
   \<and> length ''20150830T123600Z'' = 16
   \<and> take 8 ''20150830T123600Z'' = ''20150830''"
proof -
  have v: "valid_Date (clock (example_world ok_server) (reads (example_world ok_server)))"
    and y0: "0 \<le> year (clock (example_world ok_server) (reads (example_world ok_server)))"
    and y1: "year (clock (example_world ok_server) (reads (example_world ok_server))) \<le> 9999"
    using valid_example_date by (simp_all add: example_world_fields)
  show ?thesis
    using buildAuthHeader_one_instant
        [OF new_URL_example, of "example_world ok_server", folded amzDate_of_def] v y0 y1
    by (simp add: new_URL_example_text Let_def example_world_fields amzDate_of_example
        example_request_def)
qed

text \<open>
  C8 as stated fails for an instant of the year 10000: its ISO timestamp starts with a sign
  and six digits, the timestamp is \<open>+0100000101T000Z\<close>, and its first 8 characters are
  not a date \<open>YYYYMMDD\<close>.
\<close>

theorem buildAuthHeader_late_year_counterexample:
  "new_URL (url example_request) = Inr example_url
   \<and> valid_Date (clock late_world (reads late_world))
   \<and> (case fst (buildAuthHeader example_request late_world) of
         Inl e \<Rightarrow> [] | Inr h \<Rightarrow> amzDate h) = ''+0100000101T000Z''
   \<and> \<not> list_all is_digit (take 8 ''+0100000101T000Z'')"
proof -
  have c: "clock late_world (reads late_world) = late_date"
    by (simp add: late_world_def)
  have v: "valid_Date late_date"
    by (simp add: valid_Date_def late_date_def)
  have "(case fst (buildAuthHeader example_request late_world) of
           Inl e \<Rightarrow> [] | Inr h \<Rightarrow> amzDate h) = amzDate_of late_date"
    by (simp add: buildAuthHeader_parsed [OF new_URL_example] Let_def c)
  then show ?thesis
    using new_URL_example c v by (simp add: amzDate_of_late is_digit_def)
qed

text \<open>
  C9. Signing is deterministic: two runs on the same request (method, URL, body, service,
  region, credential), in worlds whose clocks give the same instant, return the same
  authorization value and the same timestamp, whatever else differs between the worlds.
\<close>

theorem buildAuthHeader_deterministic:
  assumes "clock w1 (reads w1) = clock w2 (reads w2)"
  shows "fst (buildAuthHeader r w1) = fst (buildAuthHeader r w2)"
proof (cases "new_URL (url r)")
  case (Inl e)
  then show ?thesis by (simp add: buildAuthHeader_failed)
next
  case (Inr parsedUrl)
  then show ?thesis using assms by (simp add: buildAuthHeader_parsed Let_def)
qed

theorem buildAuthHeader_deterministic_witness:
  "clock (example_world ok_server) (reads (example_world ok_server)) =
     clock other_world (reads other_world)
   \<and> example_world ok_server \<noteq> other_world
   \<and> fst (buildAuthHeader example_request (example_world ok_server)) =
       fst (buildAuthHeader example_request other_world)"
proof -
  have c: "clock (example_world ok_server) (reads (example_world ok_server)) =
           clock other_world (reads other_world)"
    by (simp add: example_world_def other_world_def)
  have "reads (example_world ok_server) \<noteq> reads other_world"
    by (simp add: example_world_def other_world_def)
  then have d: "example_world ok_server \<noteq> other_world"
    by auto
  show ?thesis
    using buildAuthHeader_deterministic [OF c, of example_request] c d by simp
qed

section \<open>Properties of the transport\<close>

lemma buildAuthHeader_signed:
  assumes "new_URL (url r) = Inr parsedUrl"
  obtains h where "buildAuthHeader r w = (Inr h, w\<lparr>reads := Suc (reads w)\<rparr>)"
  using buildAuthHeader_parsed [OF assms, of w] by (simp add: Let_def)


lemma request_signed:
  assumes "new_URL (baseURL c @ path) = Inr parsedUrl"
  obtains h where
    "request c m path d w =
       (let cfg = request_config c m path d h;
            w'' = w\<lparr>reads := Suc (reads w), sent := sent w @ [cfg]\<rparr>
        in case axios w cfg of
             Resolved r \<Rightarrow> (Inr (data r), w'')
           | Rejected e \<Rightarrow>
               (case handleApiError e of
                  Inl thrown \<Rightarrow> (Inl thrown, w'')
                | Inr _ \<Rightarrow> (Inr JUndefined, w'')))"
proof -
  let ?r = "\<lparr>method = m, url = baseURL c @ path, body = request_body d, service = ''batch'',
            region = cl_region c, accessKeyId = cl_accessKeyId c,
            secretAccessKey = cl_secretAccessKey c\<rparr>"
  from assms have "new_URL (url ?r) = Inr parsedUrl" by simp
  then obtain h where "buildAuthHeader ?r w = (Inr h, w\<lparr>reads := Suc (reads w)\<rparr>)"
    by (rule buildAuthHeader_signed)
  then have "request c m path d w =
       (let cfg = request_config c m path d h;
            w'' = w\<lparr>reads := Suc (reads w), sent := sent w @ [cfg]\<rparr>
        in case axios w cfg of
             Resolved r \<Rightarrow> (Inr (data r), w'')
           | Rejected e \<Rightarrow>
               (case handleApiError e of
                  Inl thrown \<Rightarrow> (Inl thrown, w'')
                | Inr _ \<Rightarrow> (Inr JUndefined, w'')))"
    by (simp add: request_def Let_def split: axios_result.split sum.split)
  then show thesis by (rule that)
qed

lemma request_resolved:
  assumes "new_URL (baseURL c @ path) = Inr parsedUrl"
    and "\<And>cfg. axios w cfg = Resolved r"
  shows "fst (request c m path d w) = Inr (data r)"
proof -
  obtain h where "request c m path d w =
       (let cfg = request_config c m path d h;
            w'' = w\<lparr>reads := Suc (reads w), sent := sent w @ [cfg]\<rparr>
        in case axios w cfg of
             Resolved r \<Rightarrow> (Inr (data r), w'')
           | Rejected e \<Rightarrow>
               (case handleApiError e of
                  Inl thrown \<Rightarrow> (Inl thrown, w'')
                | Inr _ \<Rightarrow> (Inr JUndefined, w'')))"
    using assms(1) by (rule request_signed)
  then show ?thesis by (simp add: Let_def assms(2))
qed




lemma getBatchClient_example:
  "getBatchClient (example_world server) =
     \<lparr>cl_accessKeyId = ''AKIDEXAMPLE'',
      cl_secretAccessKey = ''wJalrXUtnFEMI/K7MDENG/bPxRfiCYEXAMPLEKEY'',
      cl_region = ''us-east-1'', baseURL = ''https://batch.us-east-1.amazonaws.com''\<rparr>"
  by (simp add: getBatchClient_def example_world_def undefined_or_def)

lemma new_URL_jobqueues:
  "new_URL (''https://batch.us-east-1.amazonaws.com'' @ ''/v1/jobqueues'') =
     Inr \<lparr>host = ''batch.us-east-1.amazonaws.com'', pathname = ''/v1/jobqueues'', search = []\<rparr>"
  by (simp add: url_defs char_class_defs Let_def)

lemma new_URL_listjobs:
  "new_URL (''https://batch.us-east-1.amazonaws.com'' @ ''/v1/listjobs'') =
     Inr \<lparr>host = ''batch.us-east-1.amazonaws.com'', pathname = ''/v1/listjobs'', search = []\<rparr>"
  by (simp add: url_defs char_class_defs Let_def)

lemma new_URL_submitjob:
  "new_URL (''https://batch.us-east-1.amazonaws.com'' @ ''/v1/submitjob'') =
     Inr \<lparr>host = ''batch.us-east-1.amazonaws.com'', pathname = ''/v1/submitjob'', search = []\<rparr>"
  by (simp add: url_defs char_class_defs Let_def)




section \<open>Properties of the resource operations\<close>

lemma unwrap_value:
  assumes "fst res = Inr d"
  shows "fst (unwrap field res) = Inr (envelope d field)"
  using assms by (cases res) (auto simp: unwrap_def split: sum.splits)

lemma envelope_cases:
  "envelope d field =
     (if truthy (opt_prop d field) then opt_prop d field else JArr [])"
  by (simp add: envelope_def js_or_def)

text \<open>
  C6, as amended. When the request returns the response body \<open>d\<close>, each list operation
  (\<open>listQueues\<close>, \<open>listJobs\<close>, \<open>describeJobs\<close>, \<open>listDefinitions\<close>,
  \<open>describeDefinitions\<close>) returns the envelope field of \<open>d\<close> when that field is truthy,
  and the empty sequence otherwise. So an array in the field, empty or not, is returned as
  it is; an absent field gives the empty sequence; and so does a field that holds
  \<open>null\<close>, \<open>false\<close>, \<open>0\<close> or the empty string.
\<close>

theorem list_operations_envelope:
  "(fst (request (getBatchClient w) ''GET'' ''/v1/jobqueues'' JNull w) = Inr d \<longrightarrow>
      fst (listQueues w) =
        Inr (if truthy (opt_prop d ''jobQueues'') then opt_prop d ''jobQueues'' else JArr []))
   \<and> (fst (request (getBatchClient w) ''POST'' ''/v1/listjobs'' (listJobs_body a) w) = Inr d \<longrightarrow>
         fst (listJobs a w) =
           Inr (if truthy (opt_prop d ''jobSummaryList'') then opt_prop d ''jobSummaryList''
                else JArr []))
   \<and> (fst (request (getBatchClient w) ''POST'' ''/v1/describejobs'' (JObj [(''jobs'', jobIds)]) w)
         = Inr d \<longrightarrow>
         fst (describeJobs jobIds w) =
           Inr (if truthy (opt_prop d ''jobs'') then opt_prop d ''jobs'' else JArr []))
   \<and> (fst (request (getBatchClient w) ''GET'' (listDefinitions_path definitionName st) JNull w)
         = Inr d \<longrightarrow>
         fst (listDefinitions definitionName st w) =
           Inr (if truthy (opt_prop d ''jobDefinitions'') then opt_prop d ''jobDefinitions''
                else JArr []))
   \<and> (fst (request (getBatchClient w) ''GET'' (describeDefinitions_path definitionNames) JNull w)
         = Inr d \<longrightarrow>
         fst (describeDefinitions definitionNames w) =
           Inr (if truthy (opt_prop d ''jobDefinitions'') then opt_prop d ''jobDefinitions''
                else JArr []))
   \<and> (map_of ps field = Some (JArr xs) \<longrightarrow>
         (if truthy (opt_prop (JObj ps) field) then opt_prop (JObj ps) field else JArr []) = JArr xs)
   \<and> (map_of ps field = None \<longrightarrow>
         (if truthy (opt_prop (JObj ps) field) then opt_prop (JObj ps) field else JArr []) = JArr [])
   \<and> (map_of ps field = Some x \<and> \<not> truthy x \<longrightarrow>
         (if truthy (opt_prop (JObj ps) field) then opt_prop (JObj ps) field else JArr []) = JArr [])"
proof (intro conjI impI)
  show "fst (listQueues w) =
          Inr (if truthy (opt_prop d ''jobQueues'') then opt_prop d ''jobQueues'' else JArr [])"
    if "fst (request (getBatchClient w) ''GET'' ''/v1/jobqueues'' JNull w) = Inr d"
    using unwrap_value [OF that] by (simp add: listQueues_def envelope_cases)
  show "fst (listJobs a w) =
          Inr (if truthy (opt_prop d ''jobSummaryList'') then opt_prop d ''jobSummaryList''
               else JArr [])"
    if "fst (request (getBatchClient w) ''POST'' ''/v1/listjobs'' (listJobs_body a) w) = Inr d"
    using unwrap_value [OF that] by (simp add: listJobs_def envelope_cases)
  show "fst (describeJobs jobIds w) =
          Inr (if truthy (opt_prop d ''jobs'') then opt_prop d ''jobs'' else JArr [])"
    if "fst (request (getBatchClient w) ''POST'' ''/v1/describejobs'' (JObj [(''jobs'', jobIds)]) w)
        = Inr d"
    using unwrap_value [OF that] by (simp add: describeJobs_def envelope_cases)
  show "fst (listDefinitions definitionName st w) =
          Inr (if truthy (opt_prop d ''jobDefinitions'') then opt_prop d ''jobDefinitions''
               else JArr [])"
    if "fst (request (getBatchClient w) ''GET'' (listDefinitions_path definitionName st) JNull w)
        = Inr d"
    using unwrap_value [OF that] by (simp add: listDefinitions_def envelope_cases)
  show "fst (describeDefinitions definitionNames w) =
          Inr (if truthy (opt_prop d ''jobDefinitions'') then opt_prop d ''jobDefinitions''
               else JArr [])"
    if "fst (request (getBatchClient w) ''GET'' (describeDefinitions_path definitionNames) JNull w)
        = Inr d"
    using unwrap_value [OF that] by (simp add: describeDefinitions_def envelope_cases)
qed (simp_all add: opt_prop_def)

lemma request_example_resolved:
  assumes "new_URL (''https://batch.us-east-1.amazonaws.com'' @ path) = Inr parsedUrl"
    and "\<And>cfg. server cfg = Resolved r"
  shows "fst (request (getBatchClient (example_world server)) m path d (example_world server)) =
           Inr (data r)"
proof (rule request_resolved)
  show "new_URL (baseURL (getBatchClient (example_world server)) @ path) = Inr parsedUrl"
    using assms(1) by (simp add: getBatchClient_example)
  show "axios (example_world server) cfg = Resolved r" for cfg
    using assms(2) by (simp add: example_world_fields)
qed

lemma request_jobqueues_ok:
  "fst (request (getBatchClient (example_world ok_server)) ''GET'' ''/v1/jobqueues'' JNull
          (example_world ok_server)) =
     Inr (JObj [(''jobQueues'', JArr [JObj [(''jobQueueName'', JStr ''q1'')]])])"
  using request_example_resolved [OF new_URL_jobqueues, of ok_server
      "\<lparr>status = 200,
        data = JObj [(''jobQueues'', JArr [JObj [(''jobQueueName'', JStr ''q1'')]])]\<rparr>"]
  by (simp add: ok_server_def)

lemma request_jobqueues_null:
  "fst (request (getBatchClient (example_world null_server)) ''GET'' ''/v1/jobqueues'' JNull
          (example_world null_server)) =
     Inr (JObj [(''jobQueues'', JNull)])"
  using request_example_resolved [OF new_URL_jobqueues, of null_server
      "\<lparr>status = 200, data = JObj [(''jobQueues'', JNull)]\<rparr>"]
  by (simp add: null_server_def)

lemma request_listjobs_ok:
  "fst (request (getBatchClient (example_world ok_server)) ''POST'' ''/v1/listjobs''
          (listJobs_body no_filters) (example_world ok_server)) =
     Inr (JObj [(''jobQueues'', JArr [JObj [(''jobQueueName'', JStr ''q1'')]])])"
  using request_example_resolved [OF new_URL_listjobs, of ok_server
      "\<lparr>status = 200,
        data = JObj [(''jobQueues'', JArr [JObj [(''jobQueueName'', JStr ''q1'')]])]\<rparr>"]
  by (simp add: ok_server_def)

theorem list_operations_envelope_witness:
  "fst (request (getBatchClient (example_world ok_server)) ''GET'' ''/v1/jobqueues'' JNull
          (example_world ok_server)) =
     Inr (JObj [(''jobQueues'', JArr [JObj [(''jobQueueName'', JStr ''q1'')]])])
   \<and> fst (listQueues (example_world ok_server)) =
       Inr (JArr [JObj [(''jobQueueName'', JStr ''q1'')]])
   \<and> fst (request (getBatchClient (example_world ok_server)) ''POST'' ''/v1/listjobs''
              (listJobs_body no_filters) (example_world ok_server)) =
       Inr (JObj [(''jobQueues'', JArr [JObj [(''jobQueueName'', JStr ''q1'')]])])
   \<and> fst (listJobs no_filters (example_world ok_server)) = Inr (JArr [])
   \<and> fst (request (getBatchClient (example_world null_server)) ''GET'' ''/v1/jobqueues'' JNull
              (example_world null_server)) =
       Inr (JObj [(''jobQueues'', JNull)])
   \<and> fst (listQueues (example_world null_server)) = Inr (JArr [])"
  using
    list_operations_envelope
      [of "example_world ok_server"
          "JObj [(''jobQueues'', JArr [JObj [(''jobQueueName'', JStr ''q1'')]])]" no_filters]
    list_operations_envelope
      [of "example_world null_server" "JObj [(''jobQueues'', JNull)]"]
    request_jobqueues_ok request_listjobs_ok request_jobqueues_null
  by (simp add: opt_prop_def)

text \<open>
  C6 as stated fails: on the response \<open>{jobQueues: null}\<close>, \<open>listQueues\<close> returns the
  empty sequence, which is not the content of the envelope field.
\<close>

theorem listQueues_null_field_counterexample:
  "fst (request (getBatchClient (example_world null_server)) ''GET'' ''/v1/jobqueues'' JNull
          (example_world null_server)) =
     Inr (JObj [(''jobQueues'', JNull)])
   \<and> fst (listQueues (example_world null_server)) \<noteq>
       Inr (get_prop (JObj [(''jobQueues'', JNull)]) ''jobQueues'')"
  using unwrap_value [OF request_jobqueues_null, of "''jobQueues''"] request_jobqueues_null
  by (simp add: listQueues_def envelope_def js_or_def opt_prop_def)

lemma json_quote_my_job: \<open>json_quote ''my-job'' = ''"my-job"''\<close>
  by (simp add: json_quote_def json_escape_def)

lemma json_quote_plain:
  \<open>json_quote ''jobName'' = ''"jobName"''\<close>
  \<open>json_quote ''jobQueue'' = ''"jobQueue"''\<close>
  \<open>json_quote ''jobDefinition'' = ''"jobDefinition"''\<close>
  \<open>json_quote ''my-queue'' = ''"my-queue"''\<close>
  \<open>json_quote ''my-def'' = ''"my-def"''\<close>
  by (simp_all add: json_quote_def json_escape_def)

lemma request_sent_data:
  assumes "new_URL (baseURL c @ path) = Inr parsedUrl"
  shows "map ax_data (sent (snd (request c m path d w))) = map ax_data (sent w) @ [js_or d JUndefined]"
    and "map ax_url (sent (snd (request c m path d w))) = map ax_url (sent w) @ [baseURL c @ path]"
    and "map ax_method (sent (snd (request c m path d w))) = map ax_method (sent w) @ [m]"
proof -
  obtain h where r: "request c m path d w =
       (let cfg = request_config c m path d h;
            w'' = w\<lparr>reads := Suc (reads w), sent := sent w @ [cfg]\<rparr>
        in case axios w cfg of
             Resolved r \<Rightarrow> (Inr (data r), w'')
           | Rejected e \<Rightarrow>
               (case handleApiError e of
                  Inl thrown \<Rightarrow> (Inl thrown, w'')
                | Inr _ \<Rightarrow> (Inr JUndefined, w'')))"
    using assms by (rule request_signed)
  have "sent (snd (request c m path d w)) = sent w @ [request_config c m path d h]"
    unfolding r by (simp add: Let_def split: axios_result.split sum.split)
  then show
    "map ax_data (sent (snd (request c m path d w))) = map ax_data (sent w) @ [js_or d JUndefined]"
    "map ax_url (sent (snd (request c m path d w))) = map ax_url (sent w) @ [baseURL c @ path]"
    "map ax_method (sent (snd (request c m path d w))) = map ax_method (sent w) @ [m]"
    by (simp_all add: request_config_def)
qed

text \<open>
  C7. Submitting a job with name \<open>my-job\<close>, queue \<open>my-queue\<close>, definition \<open>my-def\<close>
  and no optional field builds the body with these three properties only, whose JSON text,
  which is the text that is signed, is
  \<open>{"jobName":"my-job","jobQueue":"my-queue","jobDefinition":"my-def"}\<close>; the same body is
  built when the two optional fields are \<open>null\<close>; and this body is the data of the call
  handed to the HTTP library.
\<close>

theorem submitJob_minimal_body:
  \<open>submitJob_body minimal_job =
     JObj [(''jobName'', JStr ''my-job''), (''jobQueue'', JStr ''my-queue''),
           (''jobDefinition'', JStr ''my-def'')]
   \<and> stringify (submitJob_body minimal_job) =
       Some ''{"jobName":"my-job","jobQueue":"my-queue","jobDefinition":"my-def"}''
   \<and> request_body (submitJob_body minimal_job) =
       Some ''{"jobName":"my-job","jobQueue":"my-queue","jobDefinition":"my-def"}''
   \<and> submitJob_body (minimal_job\<lparr>parameters := JNull, containerOverrides := JNull\<rparr>) =
       submitJob_body minimal_job
   \<and> submitJob minimal_job w =
       request (getBatchClient w) ''POST'' ''/v1/submitjob'' (submitJob_body minimal_job) w
   \<and> (new_URL (baseURL (getBatchClient w) @ ''/v1/submitjob'') = Inr parsedUrl \<longrightarrow>
        map ax_data (sent (snd (submitJob minimal_job w))) =
          map ax_data (sent w) @ [JObj [(''jobName'', JStr ''my-job''),
                                        (''jobQueue'', JStr ''my-queue''),
                                        (''jobDefinition'', JStr ''my-def'')]])\<close>
proof -
  have b: "submitJob_body minimal_job =
     JObj [(''jobName'', JStr ''my-job''), (''jobQueue'', JStr ''my-queue''),
           (''jobDefinition'', JStr ''my-def'')]"
    by (simp add: submitJob_body_def minimal_job_def)
  have s: \<open>stringify (submitJob_body minimal_job) =
       Some ''{"jobName":"my-job","jobQueue":"my-queue","jobDefinition":"my-def"}''\<close>
    unfolding b by (simp add: json_quote_plain json_quote_my_job)
  have n: "submitJob_body (minimal_job\<lparr>parameters := JNull, containerOverrides := JNull\<rparr>) =
       submitJob_body minimal_job"
    by (simp add: submitJob_body_def minimal_job_def)
  have r: \<open>request_body (submitJob_body minimal_job) =
       Some ''{"jobName":"my-job","jobQueue":"my-queue","jobDefinition":"my-def"}''\<close>
    using s by (simp add: request_body_def b)
  have d: "submitJob minimal_job w =
       request (getBatchClient w) ''POST'' ''/v1/submitjob'' (submitJob_body minimal_job) w"
    by (simp add: submitJob_def)
  have t: "map ax_data (sent (snd (submitJob minimal_job w))) =
          map ax_data (sent w) @ [JObj [(''jobName'', JStr ''my-job''),
                                        (''jobQueue'', JStr ''my-queue''),
                                        (''jobDefinition'', JStr ''my-def'')]]"
    if u: "new_URL (baseURL (getBatchClient w) @ ''/v1/submitjob'') = Inr parsedUrl"
    using request_sent_data(1) [OF u, of "''POST''" "submitJob_body minimal_job" w]
    by (simp add: submitJob_def b js_or_def)
  from b s r n d t show ?thesis
    by - (intro conjI impI, assumption+)
qed

theorem submitJob_minimal_body_witness:
  \<open>new_URL (baseURL (getBatchClient (example_world ok_server)) @ ''/v1/submitjob'') =
     Inr \<lparr>host = ''batch.us-east-1.amazonaws.com'', pathname = ''/v1/submitjob'', search = []\<rparr>
   \<and> map ax_data (sent (snd (submitJob minimal_job (example_world ok_server)))) =
       [JObj [(''jobName'', JStr ''my-job''), (''jobQueue'', JStr ''my-queue''),
              (''jobDefinition'', JStr ''my-def'')]]
   \<and> stringify (JObj [(''jobName'', JStr ''my-job''), (''jobQueue'', JStr ''my-queue''),
                        (''jobDefinition'', JStr ''my-def'')]) =
       Some ''{"jobName":"my-job","jobQueue":"my-queue","jobDefinition":"my-def"}''\<close>
proof -
  have u: "new_URL (baseURL (getBatchClient (example_world ok_server)) @ ''/v1/submitjob'') =
     Inr \<lparr>host = ''batch.us-east-1.amazonaws.com'', pathname = ''/v1/submitjob'', search = []\<rparr>"
    using new_URL_submitjob by (simp add: getBatchClient_example)
  note t = submitJob_minimal_body
      [of "example_world ok_server"
          "\<lparr>host = ''batch.us-east-1.amazonaws.com'', pathname = ''/v1/submitjob'', search = []\<rparr>"]
  note sent_data = t [THEN conjunct2, THEN conjunct2, THEN conjunct2, THEN conjunct2,
      THEN conjunct2, THEN mp, OF u]
  note body_text = t [THEN conjunct2, THEN conjunct1, unfolded t [THEN conjunct1]]
  show ?thesis
    using u sent_data body_text
    by (simp add: example_world_fields)
qed

text \<open>
  C10. \<open>describeDefinitions\<close> builds its path from the first name of the list only,
  \<open>/v1/jobdefinitions?jobDefinitionName=\<close> followed by that name URI-encoded; the other
  names change neither the request nor the result.
\<close>

theorem describeDefinitions_first_name_only:
  "describeDefinitions_path (n # ns) =
     ''/v1/jobdefinitions?jobDefinitionName='' @ encodeURIComponent n
   \<and> describeDefinitions_path (n # ns) = describeDefinitions_path [n]
   \<and> describeDefinitions (n # ns) w = describeDefinitions [n] w
   \<and> describeDefinitions (n # ns) w =
       unwrap ''jobDefinitions''
         (request (getBatchClient w) ''GET''
            (''/v1/jobdefinitions?jobDefinitionName='' @ encodeURIComponent n) JNull w)"
  by (simp add: describeDefinitions_def describeDefinitions_path_def)

end
